theory Spec2Isabelle
  imports Complex_Main
begin

section \<open>Routing and localization of a vehicle on the road graph\<close>

text \<open>
  A shallow embedding of \<^verbatim>\<open>RoutingLocalizationModule\<close>
  (\<^verbatim>\<open>pgdrive/scene_creator/vehicle_module/routing_localization.py\<close>).
  Python floats are read as real numbers (no rounding, no NaN), Python object
  attributes that start as \<^verbatim>\<open>None\<close> are options, and every exception is a
  value of the type \<open>error\<close>.
\<close>

subsection \<open>Python values\<close>

datatype error =
  AssertionError | KeyError | IndexError | TypeError | AttributeError | ValueError
  | ZeroDivisionError

type_synonym node = string
type_synonym lane_index = "node \<times> node \<times> nat"
type_synonym vec = "real \<times> real"

text \<open>A bound of a Python slice over a list of length \<open>n\<close>: negative bounds count
  from the end, and every bound is cut to \<open>0..n\<close>.\<close>

definition py_bound :: "nat \<Rightarrow> int \<Rightarrow> nat" where
  "py_bound n k = (if k < 0 then nat (int n + k) else min n (nat k))"

text \<open>\<^verbatim>\<open>xs[lo:]\<close> and \<^verbatim>\<open>xs[lo:hi]\<close>.\<close>

definition py_slice_from :: "'a list \<Rightarrow> int \<Rightarrow> 'a list" where
  "py_slice_from xs lo = drop (py_bound (length xs) lo) xs"

definition py_slice :: "'a list \<Rightarrow> int \<Rightarrow> int \<Rightarrow> 'a list" where
  "py_slice xs lo hi =
     (let a = py_bound (length xs) lo; b = py_bound (length xs) hi
      in take (b - a) (drop a xs))"

text \<open>\<^verbatim>\<open>xs.index(x, start, stop)\<close>: the first position in the slice bounds that
  holds \<open>x\<close>, as a position of \<open>xs\<close>; \<^verbatim>\<open>ValueError\<close> when there is none.\<close>

definition py_index :: "'a list \<Rightarrow> 'a \<Rightarrow> int \<Rightarrow> int \<Rightarrow> error + nat" where
  "py_index xs x start stop =
     (let a = py_bound (length xs) start; b = py_bound (length xs) stop
      in case List.find (\<lambda>k. xs ! k = x) [a..<b] of
           None \<Rightarrow> Inl ValueError
         | Some k \<Rightarrow> Inr k)"

text \<open>\<^verbatim>\<open>xs[i]\<close> for a non-negative \<open>i\<close>.\<close>

definition py_get :: "'a list \<Rightarrow> nat \<Rightarrow> error + 'a" where
  "py_get xs i = (if i < length xs then Inr (xs ! i) else Inl IndexError)"

subsection \<open>Lanes, the road network, the vehicle\<close>

text \<open>
  The lane classes, the road network, the map and the vehicle are collaborators of
  the module: they are records of what the module reads from them. A lane carries
  an identity, so that two lanes of equal geometry stay different objects.
\<close>

datatype lane_shape =
  StraightLane
  | CircularLane (radius: real) (direction: int) (start_phase: real) (end_phase: real)

record lane =
  lane_id :: nat
  shape :: lane_shape
  lane_length :: real
  lane_position :: "real \<Rightarrow> real \<Rightarrow> vec"
  heading_at :: "real \<Rightarrow> real"
  local_coordinates :: "vec \<Rightarrow> real \<times> real"

record road_network =
  graph :: "node \<rightharpoonup> (node \<rightharpoonup> lane list)"
  shortest_path :: "node \<Rightarrow> node \<Rightarrow> node list"
  get_closest_lane_index :: "vec \<Rightarrow> lane_index \<times> real"
  get_lane :: "lane_index \<Rightarrow> lane"

record pg_map =
  map_road_network :: road_network
  map_lane_width :: real

type_synonym ray_hit = "lane \<times> lane_index \<times> real"

record vehicle =
  veh_position :: vec
  veh_heading :: vec
  veh_lane :: lane
  veh_lane_index :: lane_index
  veh_on_lane :: bool
  veh_ray_localization :: "vec \<Rightarrow> vec \<Rightarrow> ray_hit list"

text \<open>\<^verbatim>\<open>BlockParameterSpace.CURVE[Parameter.radius].max\<close> and
  \<^verbatim>\<open>BlockParameterSpace.CURVE[Parameter.angle].max\<close>: constants of the block
  parameter space, taken as parameters.\<close>

record block_parameter_space =
  curve_radius_max :: real
  curve_angle_max :: real

subsection \<open>The state of the module\<close>

definition navigation_info_dim :: nat where "navigation_info_dim = 10"
definition NAVI_POINT_DIST :: real where "NAVI_POINT_DIST = 50"
definition PRE_NOTIFY_DIST :: real where "PRE_NOTIFY_DIST = 40"
definition CKPT_UPDATE_RANGE :: real where "CKPT_UPDATE_RANGE = 5"

text \<open>
  The attributes of the module. \<open>dest_node_path\<close> and \<open>goal_node_path\<close> are the
  positions of the two marker nodes of the scene, \<open>None\<close> when the module does not
  render.
\<close>

record module_state =
  pgmap :: "pg_map option"
  final_road :: "(node \<times> node) option"
  checkpoints :: "node list option"
  final_lane :: "lane option"
  current_ref_lanes :: "lane list option"
  current_road :: "(node \<times> node) option"
  target_checkpoints_index :: "(nat \<times> nat) option"
  navi_info :: "real list"
  FORCE_CALCULATE :: bool
  dest_node_path :: "(real \<times> real \<times> real) option"
  goal_node_path :: "(real \<times> real \<times> real) option"

text \<open>\<^verbatim>\<open>__init__\<close>: \<open>show\<close> is \<^verbatim>\<open>_show_navi_info\<close>, whether the world renders on
  screen.\<close>

definition init_module :: "bool \<Rightarrow> module_state" where
  "init_module show =
     \<lparr> pgmap = None, final_road = None, checkpoints = None, final_lane = None,
       current_ref_lanes = None, current_road = None, target_checkpoints_index = None,
       navi_info = replicate navigation_info_dim 0,
       FORCE_CALCULATE = False,
       dest_node_path = (if show then Some (0, 0, 0) else None),
       goal_node_path = (if show then Some (0, 0, 0) else None) \<rparr>"

subsection \<open>The checkpoint tracker\<close>

text \<open>
  \<^verbatim>\<open>_update_target_checkpoints\<close>: the result is the returned flag and the module
  after the call.
\<close>

definition update_target_checkpoints ::
  "module_state \<Rightarrow> lane_index \<Rightarrow> real \<Rightarrow> error + (bool \<times> module_state)" where
  "update_target_checkpoints s ego_lane_index ego_lane_longitude =
     (case target_checkpoints_index s of
        None \<Rightarrow> Inl TypeError
      | Some (i, j) \<Rightarrow>
          if i = j then Inr (False, s)
          else
            (case checkpoints s of
               None \<Rightarrow> Inl TypeError
             | Some cps \<Rightarrow>
                 let current_road_start_point = fst ego_lane_index in
                 if current_road_start_point \<in> set (py_slice_from cps (int j))
                    \<and> ego_lane_longitude < CKPT_UPDATE_RANGE
                 then
                   if current_road_start_point \<notin> set (py_slice cps (int j) (- 1))
                   then Inr (False, s)
                   else
                     (case py_index cps current_road_start_point (int j) (- 1) of
                        Inl e \<Rightarrow> Inl e
                      | Inr idx \<Rightarrow>
                          Inr (True,
                               s\<lparr>target_checkpoints_index :=
                                    Some (idx,
                                          if int idx + 1 = int (length cps) - 1
                                          then idx else idx + 1)\<rparr>))
                 else Inr (False, s)))"

text \<open>A run of the tracker: the module before the first call and after each call of
  a sequence of calls, one call for each pair of a lane index and an offset.\<close>

fun update_trace ::
  "module_state \<Rightarrow> (lane_index \<times> real) list \<Rightarrow> error + module_state list" where
  "update_trace s [] = Inr [s]"
| "update_trace s ((ego_lane_index, ego_lane_longitude) # rest) =
     (case update_target_checkpoints s ego_lane_index ego_lane_longitude of
        Inl e \<Rightarrow> Inl e
      | Inr (_, s') \<Rightarrow>
          (case update_trace s' rest of
             Inl e \<Rightarrow> Inl e
           | Inr tr \<Rightarrow> Inr (s # tr)))"

subsection \<open>The route planner\<close>

text \<open>Modelled from the spec: \<^verbatim>\<open>Road.get_lanes\<close> and the subscripts
  \<^verbatim>\<open>graph[start][end]\<close> (the classes \<^verbatim>\<open>Road\<close> and \<^verbatim>\<open>RoadNetwork\<close> are not
  among the sources): the network maps a start node to a map from end nodes to the
  ordered parallel lanes of the road; a missing key is a \<^verbatim>\<open>KeyError\<close>.\<close>

definition graph_lanes :: "road_network \<Rightarrow> node \<Rightarrow> node \<Rightarrow> error + lane list" where
  "graph_lanes rn start_node end_node =
     (case graph rn start_node of
        None \<Rightarrow> Inl KeyError
      | Some ends \<Rightarrow>
          (case ends end_node of None \<Rightarrow> Inl KeyError | Some lanes \<Rightarrow> Inr lanes))"

definition get_current_lane_width :: "module_state \<Rightarrow> error + real" where
  "get_current_lane_width s =
     (case pgmap s of None \<Rightarrow> Inl AttributeError | Some m \<Rightarrow> Inr (map_lane_width m))"

definition get_current_lane_num :: "module_state \<Rightarrow> error + nat" where
  "get_current_lane_num s =
     (case current_ref_lanes s of None \<Rightarrow> Inl TypeError | Some lanes \<Rightarrow> Inr (length lanes))"

text \<open>\<^verbatim>\<open>(float(self.get_current_lane_num()) / 2 - 0.5) * self.get_current_lane_width()\<close>,
  the lateral offset of the middle of the road from its first lane.\<close>

definition later_middle :: "module_state \<Rightarrow> error + real" where
  "later_middle s =
     (case get_current_lane_num s of
        Inl e \<Rightarrow> Inl e
      | Inr n \<Rightarrow>
          (case get_current_lane_width s of
             Inl e \<Rightarrow> Inl e
           | Inr w \<Rightarrow> Inr ((real n / 2 - 0.5) * w)))"

text \<open>\<^verbatim>\<open>setPos(p[0], -p[1], 1.8)\<close>: where a marker of the scene is put for the point
  \<open>p\<close> of the road plane.\<close>

definition marker_pos :: "vec \<Rightarrow> real \<times> real \<times> real" where
  "marker_pos p = (fst p, - snd p, 1.8)"

text \<open>
  \<^verbatim>\<open>set_route\<close>. An exception leaves the function at once; the module it leaves
  behind is not part of the result.
\<close>

definition set_route :: "module_state \<Rightarrow> node \<Rightarrow> node \<Rightarrow> error + module_state" where
  "set_route s start_road_node end_road_node =
     (case pgmap s of
        None \<Rightarrow> Inl AttributeError
      | Some m \<Rightarrow>
          let cps = shortest_path (map_road_network m) start_road_node end_road_node in
          if \<not> length cps > 2 then Inl AssertionError
          else
            let the_final_road = (cps ! (length cps - 2), end_road_node) in
            (case graph_lanes (map_road_network m) (fst the_final_road) (snd the_final_road) of
               Inl e \<Rightarrow> Inl e
             | Inr final_lanes \<Rightarrow>
                 if final_lanes = [] then Inl IndexError
                 else
                   let target_road_1_start = cps ! 0;
                       target_road_1_end = cps ! 1
                   in
                   (case graph_lanes (map_road_network m) target_road_1_start target_road_1_end of
                      Inl e \<Rightarrow> Inl e
                    | Inr ref_lanes \<Rightarrow>
                        let s1 = s\<lparr> checkpoints := Some cps,
                                    final_road := Some the_final_road,
                                    final_lane := Some (last final_lanes),
                                    target_checkpoints_index := Some (0, 1),
                                    navi_info := map (\<lambda>_. 0) (navi_info s),
                                    current_ref_lanes := Some ref_lanes,
                                    current_road := Some (target_road_1_start, target_road_1_end) \<rparr>
                        in
                        (case dest_node_path s1 of
                           None \<Rightarrow> Inr s1
                         | Some _ \<Rightarrow>
                             let ref_lane = hd final_lanes in
                             (case later_middle s1 of
                                Inl e \<Rightarrow> Inl e
                              | Inr lm \<Rightarrow>
                                  let check_point =
                                        lane_position ref_lane (lane_length ref_lane) lm
                                  in Inr (s1\<lparr>dest_node_path :=
                                             Some (marker_pos check_point)\<rparr>))))))"

subsection \<open>The lane localizer\<close>

text \<open>
  The loop of \<^verbatim>\<open>get_current_lane\<close> over the hits of the ray: the first hit whose
  lane is one of the reference lanes. The test \<^verbatim>\<open>lane in self.current_ref_lanes\<close> is
  a \<^verbatim>\<open>TypeError\<close> when the reference lanes are still \<^verbatim>\<open>None\<close>.
\<close>

fun first_ref_lane ::
  "lane list option \<Rightarrow> ray_hit list \<Rightarrow> error + (lane \<times> lane_index) option" where
  "first_ref_lane refs [] = Inr None"
| "first_ref_lane refs ((lane, index, l_1_dist) # rest) =
     (case refs of
        None \<Rightarrow> Inl TypeError
      | Some ref_lanes \<Rightarrow>
          if lane \<in> set ref_lanes then Inr (Some (lane, index))
          else first_ref_lane refs rest)"

text \<open>
  \<^verbatim>\<open>get_current_lane\<close>. The ray-cast \<^verbatim>\<open>ray_localization\<close> is a service of the
  physics world, read through the vehicle. The result \<open>None\<close> stands for the pair
  \<^verbatim>\<open>(None, None)\<close>, and \<open>Some (lane, index)\<close> for the pair \<^verbatim>\<open>(lane, index)\<close>.
\<close>

definition get_current_lane ::
  "module_state \<Rightarrow> vehicle \<Rightarrow> error + (lane \<times> lane_index) option" where
  "get_current_lane s ego_vehicle =
     (let possible_lanes =
            veh_ray_localization ego_vehicle (veh_heading ego_vehicle) (veh_position ego_vehicle)
      in case first_ref_lane (current_ref_lanes s) possible_lanes of
           Inl e \<Rightarrow> Inl e
         | Inr (Some r) \<Rightarrow> Inr (Some r)
         | Inr None \<Rightarrow>
             (case possible_lanes of
                [] \<Rightarrow> Inr None
              | (lane, index, l_1_dist) # _ \<Rightarrow> Inr (Some (lane, index))))"

subsection \<open>The navigation feature encoder\<close>

text \<open>Modelled from the spec: \<^verbatim>\<open>norm\<close> of \<^verbatim>\<open>pgdrive.utils\<close> (not among the
  sources), the magnitude of the vector \<open>(x, y)\<close>.\<close>

definition norm_xy :: "real \<Rightarrow> real \<Rightarrow> real" where
  "norm_xy x y = sqrt (x\<^sup>2 + y\<^sup>2)"

text \<open>Modelled from the spec: \<^verbatim>\<open>clip\<close> of \<^verbatim>\<open>pgdrive.utils\<close> (not among the
  sources), which clamps a value to the interval from \<open>low\<close> to \<open>high\<close>.\<close>

definition clip :: "real \<Rightarrow> real \<Rightarrow> real \<Rightarrow> real" where
  "clip a low high = min (max a low) high"

text \<open>\<^verbatim>\<open>np.rad2deg\<close>.\<close>

definition rad2deg :: "real \<Rightarrow> real" where
  "rad2deg a = a * 180 / pi"

text \<open>
  The vehicle's method \<^verbatim>\<open>projection\<close> (the vehicle class is not among the sources)
  is a parameter of the encoder: a function from a vector to its two coordinates
  \<open>(proj_heading, proj_side)\<close> in the frame of the vehicle's heading.
\<close>

type_synonym projection = "vec \<Rightarrow> real \<times> real"

text \<open>Lines 218 to 221 of \<^verbatim>\<open>_get_info_for_checkpoint\<close>: the vector from the vehicle
  to the checkpoint, cut to the length \<^verbatim>\<open>NAVI_POINT_DIST\<close>.\<close>

definition clamped_dir_vec :: "vec \<Rightarrow> vec \<Rightarrow> vec" where
  "clamped_dir_vec check_point position =
     (let dir_vec = (fst check_point - fst position, snd check_point - snd position);
          dir_norm = norm_xy (fst dir_vec) (snd dir_vec)
      in if dir_norm > NAVI_POINT_DIST
         then (fst dir_vec / dir_norm * NAVI_POINT_DIST,
               snd dir_vec / dir_norm * NAVI_POINT_DIST)
         else dir_vec)"

text \<open>Lines 223 to 235: \<open>(bendradius, dir, angle)\<close> of the reference lane. The
  division by a zero denominator is Python's \<^verbatim>\<open>ZeroDivisionError\<close>.\<close>

definition curve_info ::
  "block_parameter_space \<Rightarrow> module_state \<Rightarrow> lane \<Rightarrow> error + (real \<times> real \<times> real)" where
  "curve_info cfg s ref_lane =
     (case shape ref_lane of
        StraightLane \<Rightarrow> Inr (0, 0, 0)
      | CircularLane r d sp ep \<Rightarrow>
          (case get_current_lane_num s of
             Inl e \<Rightarrow> Inl e
           | Inr n \<Rightarrow>
               (case get_current_lane_width s of
                  Inl e \<Rightarrow> Inl e
                | Inr w \<Rightarrow>
                    let denominator = curve_radius_max cfg + real n * w in
                    if denominator = 0 then Inl ZeroDivisionError
                    else
                      let bendradius = r / denominator;
                          dir = real_of_int d;
                          angle = (if d = 1 then ep - sp
                                   else if d = - 1 then sp - ep
                                   else 0)
                      in Inr (bendradius, dir, angle))))"

text \<open>Lines 236 to 240: the five scalars of one checkpoint.\<close>

definition checkpoint_scalars ::
  "block_parameter_space \<Rightarrow> real \<times> real \<Rightarrow> real \<times> real \<times> real \<Rightarrow> real list" where
  "checkpoint_scalars cfg proj curve =
     (case (proj, curve) of
        ((proj_heading, proj_side), (bendradius, dir, angle)) \<Rightarrow>
          [clip ((proj_heading / NAVI_POINT_DIST + 1) / 2) 0 1,
           clip ((proj_side / NAVI_POINT_DIST + 1) / 2) 0 1,
           clip bendradius 0 1,
           clip ((dir + 1) / 2) 0 1,
           clip ((rad2deg angle / curve_angle_max cfg + 1) / 2) 0 1])"

text \<open>
  \<^verbatim>\<open>_get_info_for_checkpoint\<close>: the five scalars, the heading of the lane and the
  checkpoint.
\<close>

definition get_info_for_checkpoint ::
  "block_parameter_space \<Rightarrow> projection \<Rightarrow> module_state \<Rightarrow> nat \<Rightarrow> lane list \<Rightarrow> vehicle
     \<Rightarrow> error + (real list \<times> real \<times> vec)" where
  "get_info_for_checkpoint cfg projection s lanes_id lanes ego_vehicle =
     (case lanes of
        [] \<Rightarrow> Inl IndexError
      | ref_lane # _ \<Rightarrow>
          (case later_middle s of
             Inl e \<Rightarrow> Inl e
           | Inr lm \<Rightarrow>
               let check_point = lane_position ref_lane (lane_length ref_lane) lm;
                   lanes_heading =
                     (if lanes_id = 0
                      then heading_at ref_lane
                             (fst (local_coordinates ref_lane (veh_position ego_vehicle)))
                      else heading_at ref_lane (min PRE_NOTIFY_DIST (lane_length ref_lane)));
                   dir_vec = clamped_dir_vec check_point (veh_position ego_vehicle);
                   proj = projection dir_vec
               in
               (case curve_info cfg s ref_lane of
                  Inl e \<Rightarrow> Inl e
                | Inr curve \<Rightarrow>
                    Inr (checkpoint_scalars cfg proj curve, lanes_heading, check_point))))"

subsection \<open>One tick of navigation\<close>

text \<open>Lines 174 to 179 of \<^verbatim>\<open>update_navigation_localization\<close>: the assertion on the
  route and the four reads of the route at the window.\<close>

definition target_roads :: "module_state \<Rightarrow> error + ((node \<times> node) \<times> (node \<times> node))" where
  "target_roads s =
     (case checkpoints s of
        None \<Rightarrow> Inl TypeError
      | Some cps \<Rightarrow>
          if \<not> length cps > 2 then Inl AssertionError
          else
            (case target_checkpoints_index s of
               None \<Rightarrow> Inl TypeError
             | Some (i, j) \<Rightarrow>
                 (case py_get cps i of Inl e \<Rightarrow> Inl e | Inr target_road_1_start \<Rightarrow>
                 (case py_get cps (i + 1) of Inl e \<Rightarrow> Inl e | Inr target_road_1_end \<Rightarrow>
                 (case py_get cps j of Inl e \<Rightarrow> Inl e | Inr target_road_2_start \<Rightarrow>
                 (case py_get cps (j + 1) of Inl e \<Rightarrow> Inl e | Inr target_road_2_end \<Rightarrow>
                    Inr ((target_road_1_start, target_road_1_end),
                         (target_road_2_start, target_road_2_end))))))))"

text \<open>Lines 163 to 171: the lane and the lane index of the vehicle, from the ray or,
  when the ray hits nothing, from the vehicle, which is then marked as off its
  lane.\<close>

definition localize ::
  "module_state \<Rightarrow> vehicle \<Rightarrow> error + (lane \<times> lane_index \<times> vehicle)" where
  "localize s ego_vehicle =
     (case get_current_lane s ego_vehicle of
        Inl e \<Rightarrow> Inl e
      | Inr (Some (lane, lane_index)) \<Rightarrow> Inr (lane, lane_index, ego_vehicle)
      | Inr None \<Rightarrow>
          let v = ego_vehicle\<lparr>veh_on_lane := False\<rparr> in
          if FORCE_CALCULATE s
          then
            (case pgmap s of
               None \<Rightarrow> Inl AttributeError
             | Some m \<Rightarrow>
                 let lane_index =
                       fst (get_closest_lane_index (map_road_network m) (veh_position ego_vehicle))
                 in Inr (get_lane (map_road_network m) lane_index, lane_index, v))
          else Inr (veh_lane ego_vehicle, veh_lane_index ego_vehicle, v))"

text \<open>
  \<^verbatim>\<open>update_navigation_localization\<close>: the returned pair of lane and lane index, the
  module and the vehicle after the call. The arrows and the line to the destination
  are left to the renderer; of the scene the model keeps the position of the goal
  marker.
\<close>

definition update_navigation_localization ::
  "block_parameter_space \<Rightarrow> projection \<Rightarrow> module_state \<Rightarrow> vehicle
     \<Rightarrow> error + ((lane \<times> lane_index) \<times> module_state \<times> vehicle)" where
  "update_navigation_localization cfg projection s ego_vehicle =
     (case localize s ego_vehicle of
        Inl e \<Rightarrow> Inl e
      | Inr (lane, lane_index, v) \<Rightarrow>
     (let long = fst (local_coordinates lane (veh_position ego_vehicle)) in
      case update_target_checkpoints s lane_index long of
        Inl e \<Rightarrow> Inl e
      | Inr (_, s1) \<Rightarrow>
     (case target_roads s1 of
        Inl e \<Rightarrow> Inl e
      | Inr (road_1, road_2) \<Rightarrow>
     (case pgmap s1 of
        None \<Rightarrow> Inl AttributeError
      | Some m \<Rightarrow>
     (case graph_lanes (map_road_network m) (fst road_1) (snd road_1) of
        Inl e \<Rightarrow> Inl e
      | Inr target_lanes_1 \<Rightarrow>
     (case graph_lanes (map_road_network m) (fst road_2) (snd road_2) of
        Inl e \<Rightarrow> Inl e
      | Inr target_lanes_2 \<Rightarrow>
     (let s2 = s1\<lparr> current_ref_lanes := Some target_lanes_1,
                   current_road := Some road_1,
                   navi_info := map (\<lambda>_. 0) (navi_info s1) \<rparr>;
          half = navigation_info_dim div 2
      in
      case get_info_for_checkpoint cfg projection s2 0 target_lanes_1 ego_vehicle of
        Inl e \<Rightarrow> Inl e
      | Inr (info_1, lanes_heading1, checkpoint) \<Rightarrow>
     (let s3 = s2\<lparr>navi_info := info_1 @ drop half (navi_info s2)\<rparr> in
      case get_info_for_checkpoint cfg projection s3 1 target_lanes_2 ego_vehicle of
        Inl e \<Rightarrow> Inl e
      | Inr (info_2, lanes_heading2, _) \<Rightarrow>
     (let s4 = s3\<lparr>navi_info := take half (navi_info s3) @ info_2\<rparr>;
          s5 = (case goal_node_path s4 of
                  None \<Rightarrow> s4
                | Some _ \<Rightarrow>
                    s4\<lparr>goal_node_path := Some (marker_pos checkpoint)\<rparr>)
      in Inr ((lane, lane_index), s5, v))))))))))"

definition get_navi_info :: "module_state \<Rightarrow> real list" where
  "get_navi_info s = navi_info s"

definition set_force_calculate_lane_index :: "module_state \<Rightarrow> bool \<Rightarrow> module_state" where
  "set_force_calculate_lane_index s force = s\<lparr>FORCE_CALCULATE := force\<rparr>"

subsection \<open>Predicates on checkpoint windows\<close>

text \<open>The order in which a window moves: neither index goes back.\<close>

definition window_le :: "nat \<times> nat \<Rightarrow> nat \<times> nat \<Rightarrow> bool" where
  "window_le w w' \<longleftrightarrow> fst w \<le> fst w' \<and> snd w \<le> snd w'"

text \<open>The shape of every window that the tracker reaches on a route: the second
  index is one past the first and before the last node, or the two are equal at the
  last road of the route.\<close>

definition tracker_inv :: "node list \<Rightarrow> nat \<times> nat \<Rightarrow> bool" where
  "tracker_inv route w \<longleftrightarrow>
     2 < length route \<and>
     (snd w = Suc (fst w) \<and> snd w < length route - 1
      \<or> snd w = fst w \<and> Suc (fst w) = length route - 1)"


text \<open>A projection that commutes with scaling, as the coordinates of a vector in a
  fixed frame do.\<close>

definition homogeneous :: "projection \<Rightarrow> bool" where
  "homogeneous p \<longleftrightarrow> (\<forall>k u. p (k * fst u, k * snd u) = (k * fst (p u), k * snd (p u)))"

subsection \<open>A small road network\<close>

text \<open>
  Three nodes in a row, two straight parallel lanes on each of the two roads, and a
  vehicle on the first road: the concrete inputs at which the theorems below are
  instantiated.
\<close>

definition straight_lane :: "nat \<Rightarrow> real \<Rightarrow> real \<Rightarrow> lane" where
  "straight_lane k x0 y0 =
     \<lparr> lane_id = k, shape = StraightLane, lane_length = 100,
       lane_position = (\<lambda>long lat. (x0 + long, y0 + lat)),
       heading_at = (\<lambda>_. 0),
       local_coordinates = (\<lambda>p. (fst p - x0, snd p - y0)) \<rparr>"

definition circular_lane :: "nat \<Rightarrow> lane" where
  "circular_lane k =
     \<lparr> lane_id = k, shape = CircularLane 30 1 0 (pi / 2), lane_length = 30 * (pi / 2),
       lane_position = (\<lambda>long lat. (200 + long, lat)),
       heading_at = (\<lambda>long. long / 30),
       local_coordinates = (\<lambda>p. (fst p - 200, snd p)) \<rparr>"

definition demo_network :: road_network where
  "demo_network =
     \<lparr> graph =
         [''A'' \<mapsto> [''B'' \<mapsto> [straight_lane 0 0 0, straight_lane 1 0 3]],
          ''B'' \<mapsto> [''C'' \<mapsto> [straight_lane 2 100 0, straight_lane 3 100 3]]],
       shortest_path =
         (\<lambda>a b. if a = ''A'' \<and> b = ''C'' then [''A'', ''B'', ''C'']
                else if a = ''A'' \<and> b = ''B'' then [''A'', ''B'']
                else []),
       get_closest_lane_index = (\<lambda>_. ((''A'', ''B'', 0), 0)),
       get_lane = (\<lambda>_. straight_lane 0 0 0) \<rparr>"

definition demo_map :: pg_map where
  "demo_map = \<lparr> map_road_network = demo_network, map_lane_width = 3 \<rparr>"

definition demo_module :: "bool \<Rightarrow> module_state" where
  "demo_module show = (init_module show)\<lparr>pgmap := Some demo_map\<rparr>"

text \<open>The module after \<^verbatim>\<open>set_route('A', 'C')\<close> on the small network, without
  rendering.\<close>

definition demo_routed :: module_state where
  "demo_routed =
     (demo_module False)
       \<lparr> checkpoints := Some [''A'', ''B'', ''C''],
         final_road := Some (''B'', ''C''),
         final_lane := Some (straight_lane 3 100 3),
         target_checkpoints_index := Some (0, 1),
         navi_info := replicate 10 0,
         current_ref_lanes := Some [straight_lane 0 0 0, straight_lane 1 0 3],
         current_road := Some (''A'', ''B'') \<rparr>"

definition demo_vehicle :: "ray_hit list \<Rightarrow> vehicle" where
  "demo_vehicle hits =
     \<lparr> veh_position = (10, 1), veh_heading = (1, 0),
       veh_lane = straight_lane 0 0 0, veh_lane_index = (''A'', ''B'', 0),
       veh_on_lane = True,
       veh_ray_localization = (\<lambda>_ _. hits) \<rparr>"

text \<open>The coordinates of a vector in the frame of the heading \<open>(1, 0)\<close>.\<close>

definition demo_projection :: projection where
  "demo_projection u = (fst u, - snd u)"

definition demo_space :: block_parameter_space where
  "demo_space = \<lparr> curve_radius_max = 60, curve_angle_max = 135 \<rparr>"

text \<open>A sequence of ticks on the small network: on the first road, past the
  second node but too far along the road, past the second node within the range, and
  back on the first road.\<close>

definition demo_inputs :: "(lane_index \<times> real) list" where
  "demo_inputs = [((''A'', ''B'', 0), 3), ((''B'', ''C'', 1), 7), ((''B'', ''C'', 1), 2),
                  ((''A'', ''B'', 0), 1)]"

text \<open>Two hits of a ray: the nearest on a lane of the second road, the next on a
  lane of the first road.\<close>

definition demo_hits :: "ray_hit list" where
  "demo_hits = [(straight_lane 2 100 0, (''B'', ''C'', 0), 1), (straight_lane 1 0 3, (''A'', ''B'', 1), 2)]"


text \<open>One tick of navigation on the small network, after the route is set.\<close>

definition demo_tick ::
  "error + ((lane \<times> lane_index) \<times> module_state \<times> vehicle)" where
  "demo_tick =
     update_navigation_localization demo_space demo_projection demo_routed
       (demo_vehicle demo_hits)"

text \<open>A vehicle at a given position, and \<^verbatim>\<open>_get_info_for_checkpoint\<close> for it on the
  first lane of the first road.\<close>

definition demo_vehicle_at :: "vec \<Rightarrow> vehicle" where
  "demo_vehicle_at p = (demo_vehicle [])\<lparr>veh_position := p\<rparr>"

definition demo_info :: "vec \<Rightarrow> error + (real list \<times> real \<times> vec)" where
  "demo_info p =
     get_info_for_checkpoint demo_space demo_projection demo_routed 0 [straight_lane 0 0 0]
       (demo_vehicle_at p)"

section \<open>Properties\<close>

subsection \<open>Python slices and searches at a window index\<close>

lemma py_bound_nat [simp]: "py_bound n (int j) = min n j"
  by (simp add: py_bound_def)

lemma py_bound_minus_one [simp]: "py_bound n (- 1) = n - 1"
  by (simp add: py_bound_def)

lemma py_slice_from_nat: "py_slice_from xs (int j) = drop j xs"
  by (simp add: py_slice_from_def min_def)

lemma py_slice_to_last: "py_slice xs (int j) (- 1) = take (length xs - 1 - j) (drop j xs)"
  by (simp add: py_slice_def min_def)

lemma py_slice_butlast: "py_slice xs (int j) (- 1) = drop j (butlast xs)"
  by (simp add: py_slice_to_last butlast_conv_take drop_take)

lemma in_slice_to_last_iff:
  "x \<in> set (py_slice xs (int j) (- 1)) \<longleftrightarrow> (\<exists>k. j \<le> k \<and> k < length xs - 1 \<and> xs ! k = x)"
proof -
  let ?ys = "take (length xs - 1 - j) (drop j xs)"
  have len: "length ?ys = length xs - 1 - j" by auto
  have "x \<in> set ?ys \<longleftrightarrow> (\<exists>k. j \<le> k \<and> k < length xs - 1 \<and> xs ! k = x)"
  proof
    assume "x \<in> set ?ys"
    then obtain m where m: "m < length ?ys" "?ys ! m = x"
      by (auto simp: in_set_conv_nth)
    then have "m < length xs - 1 - j" using len by simp
    with m have "j \<le> j + m \<and> j + m < length xs - 1 \<and> xs ! (j + m) = x" by auto
    then show "\<exists>k. j \<le> k \<and> k < length xs - 1 \<and> xs ! k = x" by blast
  next
    assume "\<exists>k. j \<le> k \<and> k < length xs - 1 \<and> xs ! k = x"
    then obtain k where k: "j \<le> k" "k < length xs - 1" "xs ! k = x" by blast
    then have "k - j < length ?ys" "?ys ! (k - j) = x" by auto
    then show "x \<in> set ?ys" by (metis nth_mem)
  qed
  then show ?thesis by (simp add: py_slice_to_last)
qed

lemma py_index_to_last_iff:
  "py_index xs x (int j) (- 1) = Inr idx \<longleftrightarrow>
     j \<le> idx \<and> idx < length xs - 1 \<and> xs ! idx = x \<and> (\<forall>k. j \<le> k \<and> k < idx \<longrightarrow> xs ! k \<noteq> x)"
  (is "?L \<longleftrightarrow> ?R")
proof -
  define a where "a = min (length xs) j"
  define b where "b = length xs - 1"
  define P where "P = (\<lambda>k. xs ! k = x)"
  have L: "?L \<longleftrightarrow> List.find P [a..<b] = Some idx"
    by (simp add: py_index_def a_def b_def P_def split: option.splits)
  have "List.find P [a..<b] = Some idx \<longleftrightarrow> ?R"
  proof
    assume "List.find P [a..<b] = Some idx"
    then obtain m where m0: "m < length [a..<b]" "P ([a..<b] ! m)" "idx = [a..<b] ! m"
      "\<forall>l<m. \<not> P ([a..<b] ! l)"
      unfolding find_Some_iff by blast
    have lenm: "m < b - a" using m0(1) by simp
    then have nthm: "[a..<b] ! m = a + m" by simp
    from lenm have aj: "a = j" unfolding a_def b_def by (simp add: min_def split: if_splits)
    have idx: "idx = j + m" using m0(3) nthm aj by simp
    have "xs ! k \<noteq> x" if "j \<le> k \<and> k < idx" for k
    proof -
      from that idx have l: "k - j < m" by arith
      then have "[a..<b] ! (k - j) = a + (k - j)" using lenm by simp
      then have "[a..<b] ! (k - j) = k" using aj that by simp
      with m0(4) l show ?thesis unfolding P_def by metis
    qed
    moreover have "xs ! idx = x" using m0(2) m0(3) unfolding P_def by simp
    moreover have "idx < length xs - 1" using idx lenm aj unfolding b_def by simp
    ultimately show ?R using idx by simp
  next
    assume R: ?R
    then have R1: "j \<le> idx" and R2: "idx < length xs - 1" and R3: "xs ! idx = x"
      and R4: "\<And>k. j \<le> k \<Longrightarrow> k < idx \<Longrightarrow> xs ! k \<noteq> x"
      by blast+
    from R1 R2 have aj: "a = j" unfolding a_def by (auto simp: min_def)
    define m where "m = idx - j"
    from R1 R2 have lenm: "m < length [a..<b]" unfolding m_def b_def using aj by simp
    then have nthm: "[a..<b] ! m = idx" using R1 aj unfolding m_def by simp
    have "\<not> P ([a..<b] ! l)" if "l < m" for l
    proof -
      from that lenm have "[a..<b] ! l = j + l" using aj by simp
      moreover from that have "j \<le> j + l" "j + l < idx" unfolding m_def by simp_all
      ultimately show ?thesis using R4 unfolding P_def by metis
    qed
    moreover have "P ([a..<b] ! m)" using nthm R3 unfolding P_def by simp
    ultimately have "\<exists>i<length [a..<b]. P ([a..<b] ! i) \<and> idx = [a..<b] ! i
        \<and> (\<forall>l<i. \<not> P ([a..<b] ! l))"
      using lenm nthm by blast
    then show "List.find P [a..<b] = Some idx" unfolding find_Some_iff .
  qed
  with L show ?thesis by simp
qed

lemma py_index_to_last_total:
  "x \<in> set (py_slice xs (int j) (- 1)) \<Longrightarrow> \<exists>idx. py_index xs x (int j) (- 1) = Inr idx"
proof -
  assume "x \<in> set (py_slice xs (int j) (- 1))"
  then have ex: "\<exists>k. j \<le> k \<and> k < length xs - 1 \<and> xs ! k = x"
    by (simp add: in_slice_to_last_iff)
  define idx where "idx = (LEAST k. j \<le> k \<and> k < length xs - 1 \<and> xs ! k = x)"
  from ex have P: "j \<le> idx \<and> idx < length xs - 1 \<and> xs ! idx = x"
    unfolding idx_def by (rule LeastI_ex)
  have "\<forall>k. j \<le> k \<and> k < idx \<longrightarrow> xs ! k \<noteq> x"
  proof (intro allI impI notI)
    fix k assume a: "j \<le> k \<and> k < idx" and b: "xs ! k = x"
    with P have "j \<le> k \<and> k < length xs - 1 \<and> xs ! k = x" by auto
    then have "idx \<le> k" unfolding idx_def by (rule Least_le)
    with a show False by simp
  qed
  with P have "py_index xs x (int j) (- 1) = Inr idx"
    by (simp add: py_index_to_last_iff)
  then show ?thesis ..
qed

subsection \<open>One call of the tracker\<close>

lemma update_no_move:
  assumes "checkpoints s = Some route" "target_checkpoints_index s = Some (i, j)"
    and "\<not> (fst li \<in> set (drop j route) \<and> long < CKPT_UPDATE_RANGE)
         \<or> fst li \<notin> set (drop j (butlast route))"
  shows "update_target_checkpoints s li long = Inr (False, s)"
  using assms
  by (auto simp: update_target_checkpoints_def py_slice_from_nat py_slice_butlast Let_def)

lemma update_move:
  assumes "checkpoints s = Some route" "target_checkpoints_index s = Some (i, j)" "i \<noteq> j"
    and "fst li \<in> set (drop j (butlast route))" "long < CKPT_UPDATE_RANGE"
  shows "\<exists>idx. update_target_checkpoints s li long =
            Inr (True, s\<lparr>target_checkpoints_index :=
                   Some (idx, if Suc idx = length route - 1 then idx else Suc idx)\<rparr>)
          \<and> j \<le> idx \<and> idx < length route - 1 \<and> route ! idx = fst li
          \<and> (\<forall>k. j \<le> k \<and> k < idx \<longrightarrow> route ! k \<noteq> fst li)"
proof -
  from assms(4) have mem: "fst li \<in> set (py_slice route (int j) (- 1))"
    by (simp add: py_slice_butlast)
  from py_index_to_last_total[OF mem]
  obtain idx where idx: "py_index route (fst li) (int j) (- 1) = Inr idx" ..
  then have props: "j \<le> idx \<and> idx < length route - 1 \<and> route ! idx = fst li
          \<and> (\<forall>k. j \<le> k \<and> k < idx \<longrightarrow> route ! k \<noteq> fst li)"
    by (simp add: py_index_to_last_iff)
  from assms(4) have mem': "fst li \<in> set (drop j route)"
    by (metis in_set_butlastD drop_butlast)
  have cond: "(int idx + 1 = int (length route) - 1) = (Suc idx = length route - 1)"
    using props by auto
  have "update_target_checkpoints s li long =
            Inr (True, s\<lparr>target_checkpoints_index :=
                   Some (idx, if Suc idx = length route - 1 then idx else Suc idx)\<rparr>)"
    using assms(1,2,3,5) mem mem' idx cond
    by (simp add: update_target_checkpoints_def py_slice_from_nat Let_def)
  with props show ?thesis by blast
qed

lemma same_window: "target_checkpoints_index s = Some w \<Longrightarrow> s\<lparr>target_checkpoints_index := Some w\<rparr> = s"
  by simp

lemma update_step:
  assumes "checkpoints s = Some route" "target_checkpoints_index s = Some (i, j)"
  shows "\<exists>b i' j'. update_target_checkpoints s li long =
            Inr (b, s\<lparr>target_checkpoints_index := Some (i', j')\<rparr>)
          \<and> ((i', j') = (i, j)
             \<or> (i \<noteq> j \<and> j \<le> i' \<and> i' < length route - 1
                 \<and> j' = (if Suc i' = length route - 1 then i' else Suc i')))"
proof (cases "i \<noteq> j \<and> fst li \<in> set (drop j (butlast route)) \<and> long < CKPT_UPDATE_RANGE")
  case True
  from update_move[OF assms(1,2), of li long] True
  obtain idx where "update_target_checkpoints s li long =
            Inr (True, s\<lparr>target_checkpoints_index :=
                   Some (idx, if Suc idx = length route - 1 then idx else Suc idx)\<rparr>)"
     "j \<le> idx" "idx < length route - 1" by blast
  with True show ?thesis by blast
next
  case False
  have "update_target_checkpoints s li long = Inr (False, s)"
  proof (cases "i = j")
    case True
    with assms show ?thesis by (simp add: update_target_checkpoints_def)
  next
    case False
    with \<open>\<not> (i \<noteq> j \<and> fst li \<in> set (drop j (butlast route)) \<and> long < CKPT_UPDATE_RANGE)\<close>
    have "\<not> (fst li \<in> set (drop j route) \<and> long < CKPT_UPDATE_RANGE)
         \<or> fst li \<notin> set (drop j (butlast route))" by blast
    from update_no_move[OF assms(1,2) this] show ?thesis .
  qed
  then have "update_target_checkpoints s li long =
            Inr (False, s\<lparr>target_checkpoints_index := Some (i, j)\<rparr>)"
    using same_window[OF assms(2)] by simp
  then show ?thesis by blast
qed


lemma window_le_refl: "window_le w w"
  by (simp add: window_le_def)

lemma window_le_trans: "window_le a b \<Longrightarrow> window_le b c \<Longrightarrow> window_le a c"
  by (auto simp: window_le_def)

lemma update_step_inv:
  assumes "checkpoints s = Some route" "target_checkpoints_index s = Some w"
    and "tracker_inv route w"
  shows "\<exists>b w'. update_target_checkpoints s li long =
            Inr (b, s\<lparr>target_checkpoints_index := Some w'\<rparr>)
          \<and> window_le w w' \<and> tracker_inv route w'"
proof -
  obtain i j where w: "w = (i, j)" by (cases w)
  from update_step[OF assms(1) assms(2)[unfolded w], of li long]
  obtain b i' j' where st: "update_target_checkpoints s li long =
            Inr (b, s\<lparr>target_checkpoints_index := Some (i', j')\<rparr>)"
    and rel: "(i', j') = (i, j)
             \<or> (i \<noteq> j \<and> j \<le> i' \<and> i' < length route - 1
                 \<and> j' = (if Suc i' = length route - 1 then i' else Suc i'))"
    by blast
  from assms(3) rel have "window_le (i, j) (i', j') \<and> tracker_inv route (i', j')"
    unfolding w window_le_def tracker_inv_def by (auto split: if_splits)
  with st w show ?thesis by blast
qed

lemma update_trace_inv:
  assumes "checkpoints s = Some route" "target_checkpoints_index s = Some w"
    and "tracker_inv route w"
  shows "\<exists>tr ws. update_trace s inputs = Inr tr \<and> length tr = Suc (length inputs)
          \<and> map target_checkpoints_index tr = map Some (w # ws)
          \<and> (\<forall>t\<in>set tr. checkpoints t = Some route)
          \<and> (\<forall>w'\<in>set ws. window_le w w' \<and> tracker_inv route w')
          \<and> sorted_wrt window_le (w # ws)"
  using assms
proof (induction inputs arbitrary: s w)
  case Nil
  then show ?case by simp
next
  case (Cons inp rest)
  obtain li long where inp: "inp = (li, long)" by (cases inp)
  from update_step_inv[OF Cons.prems, of li long]
  obtain b w' where st: "update_target_checkpoints s li long =
            Inr (b, s\<lparr>target_checkpoints_index := Some w'\<rparr>)"
    and le: "window_le w w'" and inv': "tracker_inv route w'" by blast
  let ?s' = "s\<lparr>target_checkpoints_index := Some w'\<rparr>"
  have c': "checkpoints ?s' = Some route" using Cons.prems(1) by simp
  have t': "target_checkpoints_index ?s' = Some w'" by simp
  from Cons.IH[OF c' t' inv']
  obtain tr ws where tr: "update_trace ?s' rest = Inr tr" "length tr = Suc (length rest)"
      "map target_checkpoints_index tr = map Some (w' # ws)"
      "\<forall>t\<in>set tr. checkpoints t = Some route"
      "\<forall>w''\<in>set ws. window_le w' w'' \<and> tracker_inv route w''"
      "sorted_wrt window_le (w' # ws)"
    by blast
  have 1: "update_trace s (inp # rest) = Inr (s # tr)"
    using st tr(1) inp by simp
  have 2: "length (s # tr) = Suc (length (inp # rest))" using tr(2) by simp
  have 3: "map target_checkpoints_index (s # tr) = map Some (w # w' # ws)"
    using tr(3) Cons.prems(2) by simp
  have 4: "\<forall>t\<in>set (s # tr). checkpoints t = Some route"
    using tr(4) Cons.prems(1) by simp
  have 5: "\<forall>w''\<in>set (w' # ws). window_le w w'' \<and> tracker_inv route w''"
    using tr(5) le inv' window_le_trans by auto
  have 6: "sorted_wrt window_le (w # w' # ws)"
    using tr(6) 5 by simp
  from 1 2 3 4 5 6 show ?case by blast
qed


subsection \<open>The transition rule\<close>

text \<open>C1: for a route and a window \<open>[i, j]\<close> that is not terminal, a call of
  \<^verbatim>\<open>_update_target_checkpoints\<close> leaves the module as it is unless the start node of
  the vehicle's segment occurs in \<^verbatim>\<open>route[j:]\<close> and the longitudinal offset is below
  \<^verbatim>\<open>CKPT_UPDATE_RANGE\<close>; it leaves the module as it is when that node does not occur
  in \<^verbatim>\<open>route[j:-1]\<close>; and when the node occurs in \<^verbatim>\<open>route[j:-1]\<close> and the offset is
  below the range, the new first index is the first position of the node from \<open>j\<close> on
  and before the last node, and the new second index is one more, or the same when
  one more is the last position of the route. This holds for a route of any length.\<close>

theorem update_target_checkpoints_transition:
  assumes "checkpoints s = Some route" and "target_checkpoints_index s = Some (i, j)"
    and "i \<noteq> j"
  shows "(\<not> (fst ego_lane_index \<in> set (drop j route) \<and> ego_lane_longitude < CKPT_UPDATE_RANGE)
            \<longrightarrow> update_target_checkpoints s ego_lane_index ego_lane_longitude = Inr (False, s))
       \<and> (fst ego_lane_index \<notin> set (drop j (butlast route))
            \<longrightarrow> update_target_checkpoints s ego_lane_index ego_lane_longitude = Inr (False, s))
       \<and> (fst ego_lane_index \<in> set (drop j (butlast route))
            \<and> ego_lane_longitude < CKPT_UPDATE_RANGE
            \<longrightarrow> (\<exists>idx. update_target_checkpoints s ego_lane_index ego_lane_longitude =
                        Inr (True, s\<lparr>target_checkpoints_index :=
                               Some (idx, if idx + 1 = length route - 1 then idx else idx + 1)\<rparr>)
                      \<and> j \<le> idx \<and> idx < length route - 1
                      \<and> route ! idx = fst ego_lane_index
                      \<and> (\<forall>k. j \<le> k \<and> k < idx \<longrightarrow> route ! k \<noteq> fst ego_lane_index)))"
proof (intro conjI impI)
  assume "\<not> (fst ego_lane_index \<in> set (drop j route) \<and> ego_lane_longitude < CKPT_UPDATE_RANGE)"
  then show "update_target_checkpoints s ego_lane_index ego_lane_longitude = Inr (False, s)"
    using update_no_move[OF assms(1,2)] by blast
next
  assume "fst ego_lane_index \<notin> set (drop j (butlast route))"
  then show "update_target_checkpoints s ego_lane_index ego_lane_longitude = Inr (False, s)"
    using update_no_move[OF assms(1,2)] by blast
next
  assume a: "fst ego_lane_index \<in> set (drop j (butlast route))
            \<and> ego_lane_longitude < CKPT_UPDATE_RANGE"
  from update_move[OF assms, of ego_lane_index ego_lane_longitude] a
  show "\<exists>idx. update_target_checkpoints s ego_lane_index ego_lane_longitude =
                        Inr (True, s\<lparr>target_checkpoints_index :=
                               Some (idx, if idx + 1 = length route - 1 then idx else idx + 1)\<rparr>)
                      \<and> j \<le> idx \<and> idx < length route - 1
                      \<and> route ! idx = fst ego_lane_index
                      \<and> (\<forall>k. j \<le> k \<and> k < idx \<longrightarrow> route ! k \<noteq> fst ego_lane_index)"
    unfolding Suc_eq_plus1 by blast
qed

theorem update_target_checkpoints_transition_witness:
  "checkpoints demo_routed = Some [''A'', ''B'', ''C'']
   \<and> target_checkpoints_index demo_routed = Some (0, 1)
   \<and> ''B'' \<in> set (drop 1 (butlast [''A'', ''B'', ''C'']))
   \<and> (1 :: real) < CKPT_UPDATE_RANGE
   \<and> update_target_checkpoints demo_routed (''B'', ''C'', 0) 1 =
        Inr (True, demo_routed\<lparr>target_checkpoints_index := Some (1, 1)\<rparr>)
   \<and> update_target_checkpoints demo_routed (''B'', ''C'', 0) 7 = Inr (False, demo_routed)
   \<and> update_target_checkpoints demo_routed (''C'', ''D'', 0) 1 = Inr (False, demo_routed)"
proof -
  let ?r = "[''A'', ''B'', ''C'']"
  have c: "checkpoints demo_routed = Some ?r" by (simp add: demo_routed_def)
  have w: "target_checkpoints_index demo_routed = Some (0, 1)" by (simp add: demo_routed_def)
  have n: "(0::nat) \<noteq> 1" by simp
  have m: "''B'' \<in> set (drop 1 (butlast ?r))" by simp
  have l: "(1 :: real) < CKPT_UPDATE_RANGE" by (simp add: CKPT_UPDATE_RANGE_def)
  note T = update_target_checkpoints_transition[OF c w n]
  from T[of "(''B'', ''C'', 0)" 1] m l
  obtain idx where idx: "update_target_checkpoints demo_routed (''B'', ''C'', 0) 1 =
        Inr (True, demo_routed\<lparr>target_checkpoints_index :=
              Some (idx, if idx + 1 = length ?r - 1 then idx else idx + 1)\<rparr>)"
     "1 \<le> idx" "idx < length ?r - 1" by auto
  then have "idx = 1" by simp
  with idx(1) have 1: "update_target_checkpoints demo_routed (''B'', ''C'', 0) 1 =
        Inr (True, demo_routed\<lparr>target_checkpoints_index := Some (1, 1)\<rparr>)" by simp
  have 2: "update_target_checkpoints demo_routed (''B'', ''C'', 0) 7 = Inr (False, demo_routed)"
    using T[of "(''B'', ''C'', 0)" 7] by (simp add: CKPT_UPDATE_RANGE_def)
  have 3: "update_target_checkpoints demo_routed (''C'', ''D'', 0) 1 = Inr (False, demo_routed)"
    using T[of "(''C'', ''D'', 0)" 1] by simp
  from c w m l 1 2 3 show ?thesis by blast
qed


text \<open>C5: once the window is terminal (both indices equal), a call returns
  \<^verbatim>\<open>False\<close> and leaves the whole module as it was, whatever the lane index and the
  longitudinal offset are.\<close>

theorem terminal_window_is_final:
  "update_target_checkpoints
     (s\<lparr>target_checkpoints_index := Some (i, i)\<rparr>) ego_lane_index ego_lane_longitude
   = Inr (False, s\<lparr>target_checkpoints_index := Some (i, i)\<rparr>)"
  by (simp add: update_target_checkpoints_def)

subsection \<open>What a successful \<^verbatim>\<open>set_route\<close> leaves\<close>



lemma set_route_Inr:
  assumes "set_route s a b = Inr s'"
  shows "\<exists>m final_lanes ref_lanes.
           pgmap s = Some m
         \<and> 2 < length (shortest_path (map_road_network m) a b)
         \<and> graph_lanes (map_road_network m)
              (shortest_path (map_road_network m) a b
                 ! (length (shortest_path (map_road_network m) a b) - 2)) b = Inr final_lanes
         \<and> final_lanes \<noteq> []
         \<and> graph_lanes (map_road_network m)
              (shortest_path (map_road_network m) a b ! 0)
              (shortest_path (map_road_network m) a b ! 1) = Inr ref_lanes
         \<and> s' = s\<lparr> checkpoints := Some (shortest_path (map_road_network m) a b),
                   final_road := Some (shortest_path (map_road_network m) a b
                       ! (length (shortest_path (map_road_network m) a b) - 2), b),
                   final_lane := Some (last final_lanes),
                   target_checkpoints_index := Some (0, 1),
                   navi_info := map (\<lambda>_. 0) (navi_info s),
                   current_ref_lanes := Some ref_lanes,
                   current_road := Some (shortest_path (map_road_network m) a b ! 0,
                                         shortest_path (map_road_network m) a b ! 1),
                   dest_node_path :=
                     (case dest_node_path s of
                        None \<Rightarrow> None
                      | Some _ \<Rightarrow>
                          Some (marker_pos
                                  (lane_position (hd final_lanes) (lane_length (hd final_lanes))
                                     ((real (length ref_lanes) / 2 - 0.5) * map_lane_width m)))) \<rparr>"
  using assms
  by (auto simp: set_route_def Let_def later_middle_def get_current_lane_num_def
        get_current_lane_width_def
      split: sum.splits option.splits if_splits)

lemma demo_set_route: "set_route (demo_module False) ''A'' ''C'' = Inr demo_routed"
  by (simp add: set_route_def demo_module_def init_module_def demo_map_def demo_network_def
        demo_routed_def graph_lanes_def navigation_info_dim_def Let_def)

subsection \<open>Runs of the tracker\<close>

text \<open>C4: for a fixed route of more than two nodes, along every sequence of calls of
  \<^verbatim>\<open>_update_target_checkpoints\<close> that starts at the window \<open>[0, 1]\<close>, no call fails, the
  route stays the same, each index of the window is at least what it was after any
  earlier call (the windows are sorted by \<open>window_le\<close>), and in every window the first
  index is at most the second and the second is less than the length of the route
  minus one.\<close>

theorem checkpoint_window_monotone:
  assumes "checkpoints s = Some route" and "2 < length route"
    and "target_checkpoints_index s = Some (0, 1)"
  shows "\<exists>tr ws. update_trace s inputs = Inr tr
          \<and> length tr = Suc (length inputs)
          \<and> map target_checkpoints_index tr = map Some ws
          \<and> (\<forall>t\<in>set tr. checkpoints t = Some route)
          \<and> sorted_wrt window_le ws
          \<and> (\<forall>w\<in>set ws. fst w \<le> snd w \<and> snd w < length route - 1)"
proof -
  have inv: "tracker_inv route (0, 1)" using assms(2) by (simp add: tracker_inv_def)
  from update_trace_inv[OF assms(1) assms(3) inv, of inputs]
  obtain tr ws where tr: "update_trace s inputs = Inr tr" "length tr = Suc (length inputs)"
      "map target_checkpoints_index tr = map Some ((0, 1) # ws)"
      "\<forall>t\<in>set tr. checkpoints t = Some route"
      "\<forall>w'\<in>set ws. window_le (0, 1) w' \<and> tracker_inv route w'"
      "sorted_wrt window_le ((0, 1) # ws)"
    by blast
  have "\<forall>w\<in>set ((0, 1) # ws). tracker_inv route w" using tr(5) inv by simp
  then have "\<forall>w\<in>set ((0, 1) # ws). fst w \<le> snd w \<and> snd w < length route - 1"
    by (auto simp: tracker_inv_def)
  with tr show ?thesis by blast
qed

theorem checkpoint_window_monotone_witness:
  "checkpoints demo_routed = Some [''A'', ''B'', ''C'']
   \<and> 2 < length [''A'', ''B'', ''C'']
   \<and> target_checkpoints_index demo_routed = Some (0, 1)
   \<and> (\<exists>tr ws. update_trace demo_routed demo_inputs = Inr tr
          \<and> length tr = Suc (length demo_inputs)
          \<and> map target_checkpoints_index tr = map Some ws
          \<and> (\<forall>t\<in>set tr. checkpoints t = Some [''A'', ''B'', ''C''])
          \<and> sorted_wrt window_le ws
          \<and> (\<forall>w\<in>set ws. fst w \<le> snd w \<and> snd w < length [''A'', ''B'', ''C''] - 1))"
proof -
  have c: "checkpoints demo_routed = Some [''A'', ''B'', ''C'']" by (simp add: demo_routed_def)
  have l: "2 < length [''A'', ''B'', ''C'']" by simp
  have w: "target_checkpoints_index demo_routed = Some (0, 1)" by (simp add: demo_routed_def)
  from c l w checkpoint_window_monotone[OF c l w, of demo_inputs] show ?thesis by blast
qed

text \<open>C9: after a successful \<^verbatim>\<open>set_route\<close> and after each call of any sequence of
  calls of \<^verbatim>\<open>_update_target_checkpoints\<close> that follows it, the second index of the
  window is the first index or the first index plus one, and the two are equal only
  if the first index is the length of the route minus two.\<close>

theorem window_shape_after_set_route:
  assumes "set_route s0 start_road_node end_road_node = Inr s"
  shows "\<exists>route tr ws. checkpoints s = Some route
          \<and> update_trace s inputs = Inr tr
          \<and> map target_checkpoints_index tr = map Some ws
          \<and> length ws = Suc (length inputs)
          \<and> (\<forall>w\<in>set ws. (snd w = fst w \<or> snd w = fst w + 1)
                          \<and> (snd w = fst w \<longrightarrow> fst w = length route - 2))"
proof -
  from set_route_Inr[OF assms]
  obtain route where r: "checkpoints s = Some route" "2 < length route"
    "target_checkpoints_index s = Some (0, 1)"
    by auto
  have inv: "tracker_inv route (0, 1)" using r(2) by (simp add: tracker_inv_def)
  from update_trace_inv[OF r(1) r(3) inv, of inputs]
  obtain tr ws where tr: "update_trace s inputs = Inr tr" "length tr = Suc (length inputs)"
      "map target_checkpoints_index tr = map Some ((0, 1) # ws)"
      "\<forall>w'\<in>set ws. window_le (0, 1) w' \<and> tracker_inv route w'"
    by blast
  have len: "length ((0, 1) # ws) = Suc (length inputs)"
    using tr(2,3) by (metis length_map)
  have "\<forall>w\<in>set ((0, 1) # ws). tracker_inv route w" using tr(4) inv by simp
  then have "\<forall>w\<in>set ((0, 1) # ws). (snd w = fst w \<or> snd w = fst w + 1)
                          \<and> (snd w = fst w \<longrightarrow> fst w = length route - 2)"
    by (auto simp: tracker_inv_def)
  with r(1) tr(1,3) len show ?thesis by blast
qed

theorem window_shape_after_set_route_witness:
  "set_route (demo_module False) ''A'' ''C'' = Inr demo_routed
   \<and> (\<exists>route tr ws. checkpoints demo_routed = Some route
          \<and> update_trace demo_routed demo_inputs = Inr tr
          \<and> map target_checkpoints_index tr = map Some ws
          \<and> length ws = Suc (length demo_inputs)
          \<and> (\<forall>w\<in>set ws. (snd w = fst w \<or> snd w = fst w + 1)
                          \<and> (snd w = fst w \<longrightarrow> fst w = length route - 2)))"
  using demo_set_route window_shape_after_set_route[OF demo_set_route, of demo_inputs]
  by blast

text \<open>C10: for a route of more than two nodes and a window whose indices are both
  less than the length of the route minus one, the second being the first or the
  first plus one, the call of \<^verbatim>\<open>_update_target_checkpoints\<close> made by
  \<^verbatim>\<open>update_navigation_localization\<close> returns, the window after it meets the same
  conditions, and the four reads of the route that follow, at the first index, the
  first index plus one, the second index and the second index plus one, are all within
  the route: \<open>target_roads\<close> returns the four nodes and no \<^verbatim>\<open>IndexError\<close>.\<close>

theorem checkpoint_reads_in_bounds:
  assumes "checkpoints s = Some route" and "2 < length route"
    and "target_checkpoints_index s = Some (i, j)"
    and "i < length route - 1" and "j < length route - 1" and "j = i \<or> j = i + 1"
  shows "\<exists>b s' i' j'. update_target_checkpoints s ego_lane_index ego_lane_longitude = Inr (b, s')
          \<and> checkpoints s' = Some route
          \<and> target_checkpoints_index s' = Some (i', j')
          \<and> i' < length route - 1 \<and> j' < length route - 1 \<and> (j' = i' \<or> j' = i' + 1)
          \<and> i' < length route \<and> i' + 1 < length route
          \<and> j' < length route \<and> j' + 1 < length route
          \<and> target_roads s' = Inr ((route ! i', route ! (i' + 1)), (route ! j', route ! (j' + 1)))"
proof -
  from update_step[OF assms(1,3), of ego_lane_index ego_lane_longitude]
  obtain b i' j' where st: "update_target_checkpoints s ego_lane_index ego_lane_longitude =
            Inr (b, s\<lparr>target_checkpoints_index := Some (i', j')\<rparr>)"
    and rel: "(i', j') = (i, j)
             \<or> (i \<noteq> j \<and> j \<le> i' \<and> i' < length route - 1
                 \<and> j' = (if Suc i' = length route - 1 then i' else Suc i'))"
    by blast
  let ?s' = "s\<lparr>target_checkpoints_index := Some (i', j')\<rparr>"
  from rel assms(4,5,6)
  have b: "i' < length route - 1 \<and> j' < length route - 1 \<and> (j' = i' \<or> j' = i' + 1)"
    by (auto split: if_splits)
  then have b': "i' < length route" "i' + 1 < length route" "j' < length route"
    "j' + 1 < length route" by auto
  have c: "checkpoints ?s' = Some route" using assms(1) by simp
  have t: "target_roads ?s' = Inr ((route ! i', route ! (i' + 1)), (route ! j', route ! (j' + 1)))"
    using assms(1,2) b' by (simp add: target_roads_def py_get_def)
  from st c b b' t show ?thesis by (intro exI[of _ b] exI[of _ ?s'] exI[of _ i'] exI[of _ j']) simp
qed

theorem checkpoint_reads_in_bounds_witness:
  "checkpoints demo_routed = Some [''A'', ''B'', ''C'']
   \<and> target_checkpoints_index demo_routed = Some (0, 1)
   \<and> (\<exists>b s' i' j'. update_target_checkpoints demo_routed (''B'', ''C'', 0) 1 = Inr (b, s')
          \<and> checkpoints s' = Some [''A'', ''B'', ''C'']
          \<and> target_checkpoints_index s' = Some (i', j')
          \<and> i' < length [''A'', ''B'', ''C''] - 1 \<and> j' < length [''A'', ''B'', ''C''] - 1
          \<and> (j' = i' \<or> j' = i' + 1)
          \<and> i' < length [''A'', ''B'', ''C''] \<and> i' + 1 < length [''A'', ''B'', ''C'']
          \<and> j' < length [''A'', ''B'', ''C''] \<and> j' + 1 < length [''A'', ''B'', ''C'']
          \<and> target_roads s' = Inr (([''A'', ''B'', ''C''] ! i', [''A'', ''B'', ''C''] ! (i' + 1)),
                                   ([''A'', ''B'', ''C''] ! j', [''A'', ''B'', ''C''] ! (j' + 1))))"
proof -
  have c: "checkpoints demo_routed = Some [''A'', ''B'', ''C'']" by (simp add: demo_routed_def)
  have l: "2 < length [''A'', ''B'', ''C'']" by simp
  have w: "target_checkpoints_index demo_routed = Some (0, 1)" by (simp add: demo_routed_def)
  have i: "(0::nat) < length [''A'', ''B'', ''C''] - 1" by simp
  have j: "(1::nat) < length [''A'', ''B'', ''C''] - 1" by simp
  have ij: "(1::nat) = 0 \<or> (1::nat) = 0 + 1" by simp
  from c w checkpoint_reads_in_bounds[OF c l w i j ij, of "(''B'', ''C'', 0)" 1]
  show ?thesis by blast
qed

subsection \<open>The lane localizer\<close>

lemma first_ref_lane_find:
  "first_ref_lane (Some refs) hits =
     Inr (case List.find (\<lambda>h. fst h \<in> set refs) hits of
            None \<Rightarrow> None
          | Some h \<Rightarrow> Some (fst h, fst (snd h)))"
  by (induction hits) auto

lemma lane_neq: "k \<noteq> k' \<Longrightarrow> straight_lane k x y \<noteq> straight_lane k' x' y'"
  by (simp add: straight_lane_def)

text \<open>C6: with \<open>hits\<close> the ordered hits of the ray, \<^verbatim>\<open>get_current_lane\<close> returns
  \<^verbatim>\<open>(None, None)\<close> when there is no hit; and with \<^verbatim>\<open>current_ref_lanes\<close> a list of
  lanes, it returns the lane and the lane index of the first hit whose lane is one of
  the reference lanes, and, when no hit has such a lane and there is a hit, the lane
  and the lane index of the first hit.\<close>

theorem get_current_lane_prefers_route:
  assumes "hits = veh_ray_localization ego_vehicle (veh_heading ego_vehicle) (veh_position ego_vehicle)"
  shows "(hits = [] \<longrightarrow> get_current_lane s ego_vehicle = Inr None)
       \<and> (\<forall>refs. current_ref_lanes s = Some refs \<longrightarrow>
            (\<forall>k<length hits.
               fst (hits ! k) \<in> set refs \<and> (\<forall>k'<k. fst (hits ! k') \<notin> set refs)
               \<longrightarrow> get_current_lane s ego_vehicle = Inr (Some (fst (hits ! k), fst (snd (hits ! k)))))
          \<and> (hits \<noteq> [] \<and> (\<forall>h\<in>set hits. fst h \<notin> set refs)
               \<longrightarrow> get_current_lane s ego_vehicle = Inr (Some (fst (hd hits), fst (snd (hd hits))))))"
proof (intro conjI allI impI)
  assume "hits = []"
  then show "get_current_lane s ego_vehicle = Inr None"
    using assms by (simp add: get_current_lane_def)
next
  fix refs k
  assume r: "current_ref_lanes s = Some refs" and k: "k < length hits"
    and h: "fst (hits ! k) \<in> set refs \<and> (\<forall>k'<k. fst (hits ! k') \<notin> set refs)"
  have "List.find (\<lambda>h. fst h \<in> set refs) hits = Some (hits ! k)"
    unfolding find_Some_iff using k h by blast
  then show "get_current_lane s ego_vehicle = Inr (Some (fst (hits ! k), fst (snd (hits ! k))))"
    using assms r by (simp add: get_current_lane_def first_ref_lane_find Let_def)
next
  fix refs
  assume r: "current_ref_lanes s = Some refs"
    and h: "hits \<noteq> [] \<and> (\<forall>h\<in>set hits. fst h \<notin> set refs)"
  then have f: "List.find (\<lambda>h. fst h \<in> set refs) hits = None"
    unfolding find_None_iff by blast
  from h obtain x rest where x: "hits = x # rest" by (cases hits) auto
  obtain lane index l_1_dist where xx: "x = (lane, index, l_1_dist)" by (cases x)
  have "get_current_lane s ego_vehicle = Inr (Some (lane, index))"
    using assms[symmetric] r f x xx
    by (simp add: get_current_lane_def first_ref_lane_find Let_def)
  then show "get_current_lane s ego_vehicle = Inr (Some (fst (hd hits), fst (snd (hd hits))))"
    using x xx by simp
qed

theorem get_current_lane_prefers_route_witness:
  "current_ref_lanes demo_routed = Some [straight_lane 0 0 0, straight_lane 1 0 3]
   \<and> get_current_lane demo_routed (demo_vehicle demo_hits)
       = Inr (Some (straight_lane 1 0 3, (''A'', ''B'', 1)))
   \<and> get_current_lane demo_routed (demo_vehicle [(straight_lane 2 100 0, (''B'', ''C'', 0), 1)])
       = Inr (Some (straight_lane 2 100 0, (''B'', ''C'', 0)))
   \<and> get_current_lane demo_routed (demo_vehicle []) = Inr None"
proof -
  let ?refs = "[straight_lane 0 0 0, straight_lane 1 0 3]"
  let ?one = "[(straight_lane 2 100 0, (''B'', ''C'', 0), 1 :: real)]"
  have r: "current_ref_lanes demo_routed = Some ?refs" by (simp add: demo_routed_def)
  have h: "hits = veh_ray_localization (demo_vehicle hits)
       (veh_heading (demo_vehicle hits)) (veh_position (demo_vehicle hits))" for hits
    by (simp add: demo_vehicle_def)
  note T = get_current_lane_prefers_route[OF h, of _ demo_routed]
  note T1 = T[THEN conjunct1, rule_format]
  note T2 = T[THEN conjunct2, rule_format, OF r, THEN conjunct1, rule_format]
  note T3 = T[THEN conjunct2, rule_format, OF r, THEN conjunct2, rule_format]
  have a: "1 < length demo_hits" by (simp add: demo_hits_def)
  have b: "fst (demo_hits ! 1) \<in> set ?refs \<and> (\<forall>k'<1. fst (demo_hits ! k') \<notin> set ?refs)"
    by (simp add: demo_hits_def lane_neq)
  have "get_current_lane demo_routed (demo_vehicle demo_hits)
       = Inr (Some (fst (demo_hits ! 1), fst (snd (demo_hits ! 1))))"
    by (rule T2[OF a b])
  then have 1: "get_current_lane demo_routed (demo_vehicle demo_hits)
       = Inr (Some (straight_lane 1 0 3, (''A'', ''B'', 1)))" by (simp add: demo_hits_def)
  have c: "?one \<noteq> [] \<and> (\<forall>h\<in>set ?one. fst h \<notin> set ?refs)"
    by (simp add: lane_neq)
  have 2: "get_current_lane demo_routed (demo_vehicle ?one)
       = Inr (Some (straight_lane 2 100 0, (''B'', ''C'', 0)))" using T3[OF c] by simp
  have 3: "get_current_lane demo_routed (demo_vehicle []) = Inr None"
    by (rule T1) simp
  from r 1 2 3 show ?thesis by (intro conjI)
qed

subsection \<open>The route planner\<close>






subsection \<open>The direction vector\<close>

lemma norm_xy_scale: "0 \<le> k \<Longrightarrow> norm_xy (k * x) (k * y) = k * norm_xy x y"
proof -
  assume k: "0 \<le> k"
  have "(k * x)\<^sup>2 + (k * y)\<^sup>2 = k\<^sup>2 * (x\<^sup>2 + y\<^sup>2)"
    by (simp add: power_mult_distrib distrib_left)
  then have "norm_xy (k * x) (k * y) = sqrt (k\<^sup>2 * (x\<^sup>2 + y\<^sup>2))"
    by (simp add: norm_xy_def)
  also have "\<dots> = sqrt (k\<^sup>2) * sqrt (x\<^sup>2 + y\<^sup>2)" by (rule real_sqrt_mult)
  also have "\<dots> = k * norm_xy x y" using k by (simp add: norm_xy_def)
  finally show ?thesis .
qed

lemma clamped_far:
  assumes "NAVI_POINT_DIST < norm_xy (fst cp - fst pos) (snd cp - snd pos)"
  shows "clamped_dir_vec cp pos =
           (NAVI_POINT_DIST / norm_xy (fst cp - fst pos) (snd cp - snd pos) * (fst cp - fst pos),
            NAVI_POINT_DIST / norm_xy (fst cp - fst pos) (snd cp - snd pos) * (snd cp - snd pos))"
  using assms by (simp add: clamped_dir_vec_def Let_def)

lemma clamped_near:
  assumes "norm_xy (fst cp - fst pos) (snd cp - snd pos) \<le> NAVI_POINT_DIST"
  shows "clamped_dir_vec cp pos = (fst cp - fst pos, snd cp - snd pos)"
  using assms by (simp add: clamped_dir_vec_def Let_def)

lemma norm_xy_60_80: "norm_xy 60 80 = 100"
proof -
  have "(60::real)\<^sup>2 + 80\<^sup>2 = 100\<^sup>2" by simp
  then have "norm_xy 60 80 = sqrt (100\<^sup>2)" by (simp only: norm_xy_def)
  then show ?thesis by simp
qed

lemma norm_xy_3_4: "norm_xy 3 4 = 5"
proof -
  have "(3::real)\<^sup>2 + 4\<^sup>2 = 5\<^sup>2" by simp
  then have "norm_xy 3 4 = sqrt (5\<^sup>2)" by (simp only: norm_xy_def)
  then show ?thesis by simp
qed

lemma homogeneous_demo: "homogeneous demo_projection"
  by (simp add: homogeneous_def demo_projection_def)

subsection \<open>The feature vector\<close>

lemma clip_unit: "0 \<le> clip a 0 1 \<and> clip a 0 1 \<le> 1"
  by (simp add: clip_def)

lemma checkpoint_scalars_eq:
  "checkpoint_scalars cfg (proj_heading, proj_side) (bendradius, dir, angle) =
     [clip ((proj_heading / NAVI_POINT_DIST + 1) / 2) 0 1,
      clip ((proj_side / NAVI_POINT_DIST + 1) / 2) 0 1,
      clip bendradius 0 1,
      clip ((dir + 1) / 2) 0 1,
      clip ((rad2deg angle / curve_angle_max cfg + 1) / 2) 0 1]"
  by (simp add: checkpoint_scalars_def)

lemma checkpoint_scalars_length: "length (checkpoint_scalars cfg proj curve) = 5"
  by (cases proj, cases curve) (simp add: checkpoint_scalars_def)

lemma checkpoint_scalars_unit:
  "x \<in> set (checkpoint_scalars cfg proj curve) \<Longrightarrow> 0 \<le> x \<and> x \<le> 1"
  by (cases proj, cases curve) (auto simp: checkpoint_scalars_def clip_unit)

lemma get_info_for_checkpoint_Inr:
  assumes "get_info_for_checkpoint cfg projection s lanes_id lanes v = Inr (info, h, cp)"
  shows "\<exists>ref_lane rest lm curve.
           lanes = ref_lane # rest
         \<and> later_middle s = Inr lm
         \<and> cp = lane_position ref_lane (lane_length ref_lane) lm
         \<and> curve_info cfg s ref_lane = Inr curve
         \<and> info = checkpoint_scalars cfg (projection (clamped_dir_vec cp (veh_position v))) curve"
  using assms
  by (auto simp: get_info_for_checkpoint_def Let_def split: list.splits sum.splits)

lemma update_target_checkpoints_navi:
  "update_target_checkpoints s li long = Inr (b, s') \<Longrightarrow> navi_info s' = navi_info s"
  by (auto simp: update_target_checkpoints_def Let_def
        split: option.splits if_splits sum.splits)

lemma later_middle_eq:
  "current_ref_lanes s = Some refs \<Longrightarrow> pgmap s = Some m
   \<Longrightarrow> later_middle s = Inr ((real (length refs) / 2 - 0.5) * map_lane_width m)"
  by (simp add: later_middle_def get_current_lane_num_def get_current_lane_width_def)

lemma get_info_for_checkpoint_eq:
  assumes "later_middle s = Inr lm" and "curve_info cfg s ref_lane = Inr curve"
  shows "get_info_for_checkpoint cfg projection s lanes_id (ref_lane # rest) v =
           Inr (checkpoint_scalars cfg
                  (projection (clamped_dir_vec
                     (lane_position ref_lane (lane_length ref_lane) lm) (veh_position v))) curve,
                if lanes_id = 0
                then heading_at ref_lane (fst (local_coordinates ref_lane (veh_position v)))
                else heading_at ref_lane (min PRE_NOTIFY_DIST (lane_length ref_lane)),
                lane_position ref_lane (lane_length ref_lane) lm)"
  using assms by (simp add: get_info_for_checkpoint_def Let_def)

lemma curve_info_straight: "shape ref_lane = StraightLane \<Longrightarrow> curve_info cfg s ref_lane = Inr (0, 0, 0)"
  by (simp add: curve_info_def)

lemma demo_localize:
  "localize demo_routed (demo_vehicle demo_hits)
     = Inr (straight_lane 1 0 3, (''A'', ''B'', 1), demo_vehicle demo_hits)"
  by (simp add: localize_def get_current_lane_def first_ref_lane_find demo_routed_def
        demo_vehicle_def demo_hits_def lane_neq Let_def)

lemma demo_tick_succeeds: "\<exists>r s' v'. demo_tick = Inr (r, s', v')"
proof -
  have c: "checkpoints demo_routed = Some [''A'', ''B'', ''C'']" by (simp add: demo_routed_def)
  have w: "target_checkpoints_index demo_routed = Some (0, 1)" by (simp add: demo_routed_def)
  have u: "update_target_checkpoints demo_routed (''A'', ''B'', n) x = Inr (False, demo_routed)" for n x
    by (rule update_no_move[OF c w]) simp
  have t: "target_roads demo_routed = Inr ((''A'', ''B''), (''B'', ''C''))"
    by (simp add: target_roads_def py_get_def c w)
  have m: "pgmap demo_routed = Some demo_map" by (simp add: demo_routed_def demo_module_def)
  have g1: "graph_lanes (map_road_network demo_map) ''A'' ''B''
              = Inr [straight_lane 0 0 0, straight_lane 1 0 3]"
    by (simp add: graph_lanes_def demo_map_def demo_network_def)
  have g2: "graph_lanes (map_road_network demo_map) ''B'' ''C''
              = Inr [straight_lane 2 100 0, straight_lane 3 100 3]"
    by (simp add: graph_lanes_def demo_map_def demo_network_def)
  have st: "shape (straight_lane k x y) = StraightLane" for k x y
    by (simp add: straight_lane_def)
  have lm: "later_middle (s\<lparr>current_ref_lanes := Some refs\<rparr>)
              = Inr ((real (length refs) / 2 - 0.5) * map_lane_width demo_map)"
    if "pgmap s = Some demo_map" for s refs
    using that by (simp add: later_middle_eq)
  show ?thesis
    unfolding demo_tick_def update_navigation_localization_def
    by (simp add: demo_localize u t m g1 g2 Let_def get_info_for_checkpoint_def
          later_middle_def get_current_lane_num_def get_current_lane_width_def
          curve_info_straight st split: option.splits)
qed

lemma curve_info_circular:
  assumes "current_ref_lanes s = Some refs" and "pgmap s = Some m"
    and "shape ref_lane = CircularLane r d sp ep"
    and "curve_radius_max cfg + real (length refs) * map_lane_width m \<noteq> 0"
  shows "curve_info cfg s ref_lane =
           Inr (r / (curve_radius_max cfg + real (length refs) * map_lane_width m),
                real_of_int d,
                if d = 1 then ep - sp else if d = - 1 then sp - ep else 0)"
  using assms
  by (simp add: curve_info_def get_current_lane_num_def get_current_lane_width_def Let_def)

lemma get_current_lane_num_state:
  "current_ref_lanes s = current_ref_lanes t \<Longrightarrow> get_current_lane_num s = get_current_lane_num t"
  by (simp add: get_current_lane_num_def)

lemma get_current_lane_width_state:
  "pgmap s = pgmap t \<Longrightarrow> get_current_lane_width s = get_current_lane_width t"
  by (simp add: get_current_lane_width_def)

lemma later_middle_state:
  assumes "current_ref_lanes s = current_ref_lanes t" and "pgmap s = pgmap t"
  shows "later_middle s = later_middle t"
  by (simp only: later_middle_def get_current_lane_num_state[OF assms(1)]
        get_current_lane_width_state[OF assms(2)])

lemma curve_info_state:
  assumes "current_ref_lanes s = current_ref_lanes t" and "pgmap s = pgmap t"
  shows "curve_info cfg s ref_lane = curve_info cfg t ref_lane"
  by (simp only: curve_info_def get_current_lane_num_state[OF assms(1)]
        get_current_lane_width_state[OF assms(2)])

lemma get_info_for_checkpoint_state:
  assumes "current_ref_lanes s = current_ref_lanes t" and "pgmap s = pgmap t"
  shows "get_info_for_checkpoint cfg projection s lanes_id lanes v
     = get_info_for_checkpoint cfg projection t lanes_id lanes v"
  by (simp only: get_info_for_checkpoint_def later_middle_state[OF assms]
        curve_info_state[OF assms])

lemma target_roads_Inr:
  assumes "target_roads s = Inr (road_1, road_2)"
  shows "\<exists>route i j. checkpoints s = Some route \<and> 2 < length route
           \<and> target_checkpoints_index s = Some (i, j)
           \<and> i + 1 < length route \<and> j + 1 < length route
           \<and> road_1 = (route ! i, route ! (i + 1))
           \<and> road_2 = (route ! j, route ! (j + 1))"
  using assms
  by (auto simp: target_roads_def py_get_def split: option.splits if_splits)

lemma update_navigation_localization_Inr:
  assumes "update_navigation_localization cfg projection s v = Inr (r, s', v')"
  shows "\<exists>lane lane_index b s1 route i j m lanes_1 lanes_2 info_1 h1 cp1 info_2 h2 cp2.
           localize s v = Inr (lane, lane_index, v')
         \<and> r = (lane, lane_index)
         \<and> update_target_checkpoints s lane_index
              (fst (local_coordinates lane (veh_position v))) = Inr (b, s1)
         \<and> checkpoints s1 = Some route \<and> 2 < length route
         \<and> target_checkpoints_index s1 = Some (i, j)
         \<and> i + 1 < length route \<and> j + 1 < length route
         \<and> pgmap s1 = Some m
         \<and> graph_lanes (map_road_network m) (route ! i) (route ! (i + 1)) = Inr lanes_1
         \<and> graph_lanes (map_road_network m) (route ! j) (route ! (j + 1)) = Inr lanes_2
         \<and> get_info_for_checkpoint cfg projection s' 0 lanes_1 v = Inr (info_1, h1, cp1)
         \<and> get_info_for_checkpoint cfg projection s' 1 lanes_2 v = Inr (info_2, h2, cp2)
         \<and> navi_info s' = info_1 @ info_2
         \<and> checkpoints s' = Some route
         \<and> target_checkpoints_index s' = Some (i, j)
         \<and> pgmap s' = Some m
         \<and> current_ref_lanes s' = Some lanes_1
         \<and> current_road s' = Some (route ! i, route ! (i + 1))"
proof -
  from assms obtain lane lane_index v1 where
    l: "localize s v = Inr (lane, lane_index, v1)"
    by (auto simp: update_navigation_localization_def split: sum.splits)
  from assms l obtain b s1 where
    u: "update_target_checkpoints s lane_index (fst (local_coordinates lane (veh_position v)))
          = Inr (b, s1)"
    by (auto simp: update_navigation_localization_def Let_def split: sum.splits)
  let ?s2 = "\<lambda>lanes_1 road_1. s1\<lparr> current_ref_lanes := Some lanes_1,
                   current_road := Some road_1,
                   navi_info := map (\<lambda>_. 0) (navi_info s1) \<rparr>"
  from assms l u obtain road_1 road_2 m lanes_1 lanes_2 info_1 h1 cp1 info_2 h2 cp2 where
    g: "target_roads s1 = Inr (road_1, road_2)"
       "pgmap s1 = Some m"
       "graph_lanes (map_road_network m) (fst road_1) (snd road_1) = Inr lanes_1"
       "graph_lanes (map_road_network m) (fst road_2) (snd road_2) = Inr lanes_2"
       "get_info_for_checkpoint cfg projection (?s2 lanes_1 road_1) 0 lanes_1 v
          = Inr (info_1, h1, cp1)"
       "get_info_for_checkpoint cfg projection
          ((?s2 lanes_1 road_1)\<lparr>navi_info := info_1 @ drop (navigation_info_dim div 2)
              (navi_info (?s2 lanes_1 road_1))\<rparr>) 1 lanes_2 v
          = Inr (info_2, h2, cp2)"
       "navi_info s' = take (navigation_info_dim div 2)
           (info_1 @ drop (navigation_info_dim div 2) (navi_info (?s2 lanes_1 road_1))) @ info_2"
       "checkpoints s' = checkpoints s1"
       "target_checkpoints_index s' = target_checkpoints_index s1"
       "pgmap s' = pgmap s1"
       "current_ref_lanes s' = Some lanes_1"
       "current_road s' = Some road_1"
       "r = (lane, lane_index)" "v' = v1"
    unfolding update_navigation_localization_def Let_def
    by (auto split: sum.splits option.splits prod.splits)
  from target_roads_Inr[OF g(1)] obtain route i j where
    t: "checkpoints s1 = Some route" "2 < length route"
       "target_checkpoints_index s1 = Some (i, j)"
       "i + 1 < length route" "j + 1 < length route"
       "road_1 = (route ! i, route ! (i + 1))" "road_2 = (route ! j, route ! (j + 1))"
    by blast
  from get_info_for_checkpoint_Inr[OF g(5)] have len1: "length info_1 = 5"
    by (auto simp: checkpoint_scalars_length)
  have n: "navi_info s' = info_1 @ info_2"
    using g(7) len1 by (simp add: navigation_info_dim_def)
  have i1: "get_info_for_checkpoint cfg projection s' 0 lanes_1 v = Inr (info_1, h1, cp1)"
    using g(5) get_info_for_checkpoint_state[of s' "?s2 lanes_1 road_1"] g(10) g(11) by simp
  have i2: "get_info_for_checkpoint cfg projection s' 1 lanes_2 v = Inr (info_2, h2, cp2)"
    using g(6) get_info_for_checkpoint_state[of s' "(?s2 lanes_1 road_1)\<lparr>navi_info := info_1 @ drop (navigation_info_dim div 2)
              (navi_info (?s2 lanes_1 road_1))\<rparr>"] g(10) g(11) by simp
  from l u t g(2,3,4,8,9,10,11,12,13,14) n i1 i2 show ?thesis by auto
qed

lemma demo_update_stays:
  "update_target_checkpoints demo_routed (''A'', ''B'', n) x = Inr (False, demo_routed)"
proof -
  have c: "checkpoints demo_routed = Some [''A'', ''B'', ''C'']" by (simp add: demo_routed_def)
  have w: "target_checkpoints_index demo_routed = Some (0, 1)" by (simp add: demo_routed_def)
  show ?thesis by (rule update_no_move[OF c w]) simp
qed

lemma demo_graph_AB:
  "graph_lanes (map_road_network demo_map) ''A'' ''B''
     = Inr [straight_lane 0 0 0, straight_lane 1 0 3]"
  by (simp add: graph_lanes_def demo_map_def demo_network_def)

lemma checkpoint_scalars_nth:
  "checkpoint_scalars cfg proj curve ! 0 = clip ((fst proj / NAVI_POINT_DIST + 1) / 2) 0 1"
  "checkpoint_scalars cfg proj curve ! 1 = clip ((snd proj / NAVI_POINT_DIST + 1) / 2) 0 1"
  by (cases proj, cases curve, simp add: checkpoint_scalars_def)+

lemma demo_info_eq:
  "demo_info p =
     Inr (checkpoint_scalars demo_space (demo_projection (clamped_dir_vec (100, 3 / 2) p)) (0, 0, 0),
          0, (100, 3 / 2))"
proof -
  have r: "current_ref_lanes demo_routed = Some [straight_lane 0 0 0, straight_lane 1 0 3]"
    by (simp add: demo_routed_def)
  have m: "pgmap demo_routed = Some demo_map" by (simp add: demo_routed_def demo_module_def)
  have lm: "later_middle demo_routed = Inr (3 / 2)"
    using later_middle_eq[OF r m] by (simp add: demo_map_def)
  have c: "curve_info demo_space demo_routed (straight_lane 0 0 0) = Inr (0, 0, 0)"
    by (rule curve_info_straight) (simp add: straight_lane_def)
  show ?thesis
    unfolding demo_info_def get_info_for_checkpoint_eq[OF lm c]
    by (simp add: straight_lane_def demo_vehicle_at_def demo_vehicle_def)
qed

text \<open>C7: let \<^verbatim>\<open>_get_info_for_checkpoint\<close> return the scalars \<open>info\<close> and the
  checkpoint, and let \<open>u\<close> be the vector from the vehicle to the checkpoint, \<open>d\<close> its
  magnitude and \<open>c\<close> the clamped vector. The first two scalars of \<open>info\<close> are the
  clamped scalars of the projection of \<open>c\<close>. When \<open>d\<close> exceeds \<^verbatim>\<open>NAVI_POINT_DIST\<close>, \<open>c\<close>
  has magnitude \<^verbatim>\<open>NAVI_POINT_DIST\<close> and is \<open>u\<close> scaled by the positive factor
  \<^verbatim>\<open>NAVI_POINT_DIST\<close> over \<open>d\<close>; if the vehicle's projection commutes with scaling,
  each component of the projection of \<open>c\<close> is that factor times the component of the
  projection of \<open>u\<close>, their ratio is that factor where the latter is not zero, and the
  two scalars are those of the projection of \<open>u\<close> divided by \<open>d\<close>. When \<open>d\<close> is at most
  \<^verbatim>\<open>NAVI_POINT_DIST\<close>, \<open>c\<close> is \<open>u\<close> and the two scalars are those of the projection of
  \<open>u\<close>. Over the real numbers the equalities are exact.\<close>

theorem direction_vector_clamping:
  assumes "get_info_for_checkpoint cfg projection s lanes_id lanes ego_vehicle
             = Inr (info, lanes_heading, check_point)"
    and "u = (fst check_point - fst (veh_position ego_vehicle),
              snd check_point - snd (veh_position ego_vehicle))"
    and "d = norm_xy (fst u) (snd u)"
    and "c = clamped_dir_vec check_point (veh_position ego_vehicle)"
  shows "info ! 0 = clip ((fst (projection c) / NAVI_POINT_DIST + 1) / 2) 0 1
       \<and> info ! 1 = clip ((snd (projection c) / NAVI_POINT_DIST + 1) / 2) 0 1
       \<and> (\<exists>ref_lane rest lm. lanes = ref_lane # rest \<and> later_middle s = Inr lm
             \<and> check_point = lane_position ref_lane (lane_length ref_lane) lm)
       \<and> (NAVI_POINT_DIST < d \<longrightarrow>
            norm_xy (fst c) (snd c) = NAVI_POINT_DIST
          \<and> 0 < NAVI_POINT_DIST / d
          \<and> c = (NAVI_POINT_DIST / d * fst u, NAVI_POINT_DIST / d * snd u)
          \<and> (homogeneous projection \<longrightarrow>
                fst (projection c) = NAVI_POINT_DIST / d * fst (projection u)
              \<and> snd (projection c) = NAVI_POINT_DIST / d * snd (projection u)
              \<and> (fst (projection u) \<noteq> 0 \<longrightarrow>
                    fst (projection c) / fst (projection u) = NAVI_POINT_DIST / d)
              \<and> (snd (projection u) \<noteq> 0 \<longrightarrow>
                    snd (projection c) / snd (projection u) = NAVI_POINT_DIST / d)
              \<and> info ! 0 = clip ((fst (projection u) / d + 1) / 2) 0 1
              \<and> info ! 1 = clip ((snd (projection u) / d + 1) / 2) 0 1))
       \<and> (d \<le> NAVI_POINT_DIST \<longrightarrow>
            c = u
          \<and> info ! 0 = clip ((fst (projection u) / NAVI_POINT_DIST + 1) / 2) 0 1
          \<and> info ! 1 = clip ((snd (projection u) / NAVI_POINT_DIST + 1) / 2) 0 1)"
proof -
  from get_info_for_checkpoint_Inr[OF assms(1)]
  obtain ref_lane rest lm curve where
    g: "lanes = ref_lane # rest" "later_middle s = Inr lm"
       "check_point = lane_position ref_lane (lane_length ref_lane) lm"
       "info = checkpoint_scalars cfg
                 (projection (clamped_dir_vec check_point (veh_position ego_vehicle))) curve"
    by blast
  have i0: "info ! 0 = clip ((fst (projection c) / NAVI_POINT_DIST + 1) / 2) 0 1"
    unfolding g(4) assms(4) by (rule checkpoint_scalars_nth(1))
  have i1: "info ! 1 = clip ((snd (projection c) / NAVI_POINT_DIST + 1) / 2) 0 1"
    unfolding g(4) assms(4) by (rule checkpoint_scalars_nth(2))
  have N: "0 < NAVI_POINT_DIST" by (simp add: NAVI_POINT_DIST_def)
  have far: "norm_xy (fst c) (snd c) = NAVI_POINT_DIST
          \<and> 0 < NAVI_POINT_DIST / d
          \<and> c = (NAVI_POINT_DIST / d * fst u, NAVI_POINT_DIST / d * snd u)
          \<and> (homogeneous projection \<longrightarrow>
                fst (projection c) = NAVI_POINT_DIST / d * fst (projection u)
              \<and> snd (projection c) = NAVI_POINT_DIST / d * snd (projection u)
              \<and> (fst (projection u) \<noteq> 0 \<longrightarrow>
                    fst (projection c) / fst (projection u) = NAVI_POINT_DIST / d)
              \<and> (snd (projection u) \<noteq> 0 \<longrightarrow>
                    snd (projection c) / snd (projection u) = NAVI_POINT_DIST / d)
              \<and> info ! 0 = clip ((fst (projection u) / d + 1) / 2) 0 1
              \<and> info ! 1 = clip ((snd (projection u) / d + 1) / 2) 0 1)"
    if f: "NAVI_POINT_DIST < d"
  proof -
    from f N have dpos: "0 < d" by simp
    have k: "0 < NAVI_POINT_DIST / d" using N dpos by simp
    have c: "c = (NAVI_POINT_DIST / d * fst u, NAVI_POINT_DIST / d * snd u)"
      using clamped_far[of check_point "veh_position ego_vehicle"] f assms(2,3,4) by simp
    have "norm_xy (fst c) (snd c) = NAVI_POINT_DIST / d * norm_xy (fst u) (snd u)"
      by (simp only: c fst_conv snd_conv norm_xy_scale[OF less_imp_le[OF k]])
    then have n: "norm_xy (fst c) (snd c) = NAVI_POINT_DIST" using assms(3) dpos by simp
    have h: "fst (projection c) = NAVI_POINT_DIST / d * fst (projection u)
              \<and> snd (projection c) = NAVI_POINT_DIST / d * snd (projection u)
              \<and> (fst (projection u) \<noteq> 0 \<longrightarrow>
                    fst (projection c) / fst (projection u) = NAVI_POINT_DIST / d)
              \<and> (snd (projection u) \<noteq> 0 \<longrightarrow>
                    snd (projection c) / snd (projection u) = NAVI_POINT_DIST / d)
              \<and> info ! 0 = clip ((fst (projection u) / d + 1) / 2) 0 1
              \<and> info ! 1 = clip ((snd (projection u) / d + 1) / 2) 0 1"
      if hom: "homogeneous projection"
    proof -
      from hom have pc: "projection c = (NAVI_POINT_DIST / d * fst (projection u),
                               NAVI_POINT_DIST / d * snd (projection u))"
        unfolding c homogeneous_def by blast
      have q0: "fst (projection c) / NAVI_POINT_DIST = fst (projection u) / d"
        using N by (simp add: pc)
      have q1: "snd (projection c) / NAVI_POINT_DIST = snd (projection u) / d"
        using N by (simp add: pc)
      have j0: "info ! 0 = clip ((fst (projection u) / d + 1) / 2) 0 1"
        using i0 by (simp only: q0)
      have j1: "info ! 1 = clip ((snd (projection u) / d + 1) / 2) 0 1"
        using i1 by (simp only: q1)
      from pc j0 j1 show ?thesis by simp
    qed
    from n k c h show ?thesis by blast
  qed
  have near: "c = u
          \<and> info ! 0 = clip ((fst (projection u) / NAVI_POINT_DIST + 1) / 2) 0 1
          \<and> info ! 1 = clip ((snd (projection u) / NAVI_POINT_DIST + 1) / 2) 0 1"
    if f: "d \<le> NAVI_POINT_DIST"
  proof -
    have "c = u"
      using clamped_near[of check_point "veh_position ego_vehicle"] f assms(2,3,4) by simp
    with i0 i1 show ?thesis by simp
  qed
  from i0 i1 g(1,2,3) far near show ?thesis by blast
qed

theorem direction_vector_clamping_witness:
  "demo_info (40, - (157 / 2)) = Inr (fst (projr (demo_info (40, - (157 / 2)))), 0, (100, 3 / 2))
   \<and> (60, 80) = (fst (100 :: real, 3 / 2 :: real) - fst (veh_position (demo_vehicle_at (40, - (157 / 2)))),
                 snd (100 :: real, 3 / 2 :: real) - snd (veh_position (demo_vehicle_at (40, - (157 / 2)))))
   \<and> 100 = norm_xy (fst (60 :: real, 80 :: real)) (snd (60 :: real, 80 :: real))
   \<and> NAVI_POINT_DIST < 100
   \<and> homogeneous demo_projection
   \<and> clamped_dir_vec (100, 3 / 2) (40, - (157 / 2)) = (30, 40)
   \<and> norm_xy (fst (clamped_dir_vec (100, 3 / 2) (40, - (157 / 2))))
              (snd (clamped_dir_vec (100, 3 / 2) (40, - (157 / 2)))) = NAVI_POINT_DIST
   \<and> fst (demo_projection (clamped_dir_vec (100, 3 / 2) (40, - (157 / 2))))
        / fst (demo_projection (60, 80)) = NAVI_POINT_DIST / 100
   \<and> snd (demo_projection (clamped_dir_vec (100, 3 / 2) (40, - (157 / 2))))
        / snd (demo_projection (60, 80)) = NAVI_POINT_DIST / 100
   \<and> fst (projr (demo_info (40, - (157 / 2)))) ! 0 = 4 / 5
   \<and> fst (projr (demo_info (40, - (157 / 2)))) ! 1 = 1 / 10
   \<and> clamped_dir_vec (100, 3 / 2) (97, - (5 / 2)) = (3, 4)
   \<and> fst (projr (demo_info (97, - (5 / 2)))) ! 0 = 53 / 100
   \<and> fst (projr (demo_info (97, - (5 / 2)))) ! 1 = 23 / 50"
proof -
  let ?far = "(40, - (157 / 2)) :: vec" and ?near = "(97, - (5 / 2)) :: vec"
  have g: "demo_info p = Inr (fst (projr (demo_info p)), 0, (100, 3 / 2))" for p
    by (simp add: demo_info_eq)
  have pos: "veh_position (demo_vehicle_at p) = p" for p
    by (simp add: demo_vehicle_at_def)
  have u: "(60, 80) = (fst (100 :: real, 3 / 2 :: real) - fst (veh_position (demo_vehicle_at ?far)),
                 snd (100 :: real, 3 / 2 :: real) - snd (veh_position (demo_vehicle_at ?far)))"
    by (simp add: pos)
  have d: "100 = norm_xy (fst (60 :: real, 80 :: real)) (snd (60 :: real, 80 :: real))"
    by (simp add: norm_xy_60_80)
  have far: "NAVI_POINT_DIST < 100" by (simp add: NAVI_POINT_DIST_def)
  note T = direction_vector_clamping[OF g[of ?far, unfolded demo_info_def] u d refl]
  note F = T[THEN conjunct2, THEN conjunct2, THEN conjunct2, THEN conjunct1, rule_format, OF far]
  have 1: "clamped_dir_vec (100, 3 / 2) ?far = (30, 40)"
    using F[THEN conjunct2, THEN conjunct2, THEN conjunct1]
    by (simp add: NAVI_POINT_DIST_def pos)
  have 2: "norm_xy (fst (clamped_dir_vec (100, 3 / 2) ?far))
              (snd (clamped_dir_vec (100, 3 / 2) ?far)) = NAVI_POINT_DIST"
    using F[THEN conjunct1] by (simp add: pos)
  note P = F[THEN conjunct2, THEN conjunct2, THEN conjunct2, rule_format, OF homogeneous_demo]
  have nz: "fst (demo_projection (60, 80)) \<noteq> 0" "snd (demo_projection (60, 80)) \<noteq> 0"
    by (simp_all add: demo_projection_def)
  have 3: "fst (demo_projection (clamped_dir_vec (100, 3 / 2) ?far))
        / fst (demo_projection (60, 80)) = NAVI_POINT_DIST / 100"
    using P[THEN conjunct2, THEN conjunct2, THEN conjunct1, rule_format, OF nz(1)]
    by (simp add: pos)
  have 4: "snd (demo_projection (clamped_dir_vec (100, 3 / 2) ?far))
        / snd (demo_projection (60, 80)) = NAVI_POINT_DIST / 100"
    using P[THEN conjunct2, THEN conjunct2, THEN conjunct2, THEN conjunct1, rule_format, OF nz(2)]
    by (simp add: pos)
  have 5: "fst (projr (demo_info ?far)) ! 0 = 4 / 5"
    using P[THEN conjunct2, THEN conjunct2, THEN conjunct2, THEN conjunct2, THEN conjunct1]
    by (simp add: demo_info_def demo_projection_def clip_def)
  have 6: "fst (projr (demo_info ?far)) ! 1 = 1 / 10"
    using P[THEN conjunct2, THEN conjunct2, THEN conjunct2, THEN conjunct2, THEN conjunct2]
    by (simp add: demo_info_def demo_projection_def clip_def)
  have u': "(3, 4) = (fst (100 :: real, 3 / 2 :: real) - fst (veh_position (demo_vehicle_at ?near)),
                 snd (100 :: real, 3 / 2 :: real) - snd (veh_position (demo_vehicle_at ?near)))"
    by (simp add: pos)
  have d': "5 = norm_xy (fst (3 :: real, 4 :: real)) (snd (3 :: real, 4 :: real))"
    by (simp add: norm_xy_3_4)
  have near: "5 \<le> NAVI_POINT_DIST" by (simp add: NAVI_POINT_DIST_def)
  note T' = direction_vector_clamping[OF g[of ?near, unfolded demo_info_def] u' d' refl]
  note N = T'[THEN conjunct2, THEN conjunct2, THEN conjunct2, THEN conjunct2, rule_format, OF near]
  have 7: "clamped_dir_vec (100, 3 / 2) ?near = (3, 4)"
    using N[THEN conjunct1] by (simp add: pos)
  have 8: "fst (projr (demo_info ?near)) ! 0 = 53 / 100"
    using N[THEN conjunct2, THEN conjunct1]
    by (simp add: demo_info_def demo_projection_def clip_def NAVI_POINT_DIST_def)
  have 9: "fst (projr (demo_info ?near)) ! 1 = 23 / 50"
    using N[THEN conjunct2, THEN conjunct2]
    by (simp add: demo_info_def demo_projection_def clip_def NAVI_POINT_DIST_def)
  from g[of ?far] u d far homogeneous_demo 1 2 3 4 5 6 7 8 9 show ?thesis by (intro conjI)
qed

text \<open>C2: \<^verbatim>\<open>get_navi_info\<close> returns ten zeros after construction and, for a module
  whose vector has ten elements, after a successful \<^verbatim>\<open>set_route\<close>;
  \<^verbatim>\<open>_update_target_checkpoints\<close> leaves the vector as it is; and after a successful
  \<^verbatim>\<open>update_navigation_localization\<close> the vector has ten elements, each between 0 and
  1. With \<open>[i, j]\<close> the window that the tracker leaves for the localized lane, the
  first five elements are what \<^verbatim>\<open>_get_info_for_checkpoint\<close> returns for the lanes of
  the road from \<open>route[i]\<close> to \<open>route[i+1]\<close> and the last five what it returns for the
  lanes of the road from \<open>route[j]\<close> to \<open>route[j+1]\<close>: for each, the clamped scalars of
  the projected heading and side of the clamped vector to the end of the first lane
  of the road, and of the bend radius, the direction and the angle that \<open>curve_info\<close>
  gives for that lane.\<close>

theorem navi_info_in_unit_interval:
  assumes "length (navi_info s) = navigation_info_dim"
  shows "get_navi_info (init_module show) = replicate 10 0
       \<and> (\<forall>a b s'. set_route s a b = Inr s' \<longrightarrow> get_navi_info s' = replicate 10 0)
       \<and> (\<forall>li long b s'. update_target_checkpoints s li long = Inr (b, s')
             \<longrightarrow> get_navi_info s' = get_navi_info s)
       \<and> (\<forall>cfg projection v r s' v'.
             update_navigation_localization cfg projection s v = Inr (r, s', v') \<longrightarrow>
               length (get_navi_info s') = 10
             \<and> (\<forall>x\<in>set (get_navi_info s'). 0 \<le> x \<and> x \<le> 1)
             \<and> (\<exists>lane lane_index b s1 route i j m ref_1 rest_1 ref_2 rest_2 lm cp1 cp2 h1 h2
                    bendradius1 dir1 angle1 bendradius2 dir2 angle2.
                   localize s v = Inr (lane, lane_index, v')
                 \<and> update_target_checkpoints s lane_index
                      (fst (local_coordinates lane (veh_position v))) = Inr (b, s1)
                 \<and> checkpoints s1 = Some route
                 \<and> target_checkpoints_index s1 = Some (i, j)
                 \<and> pgmap s1 = Some m
                 \<and> checkpoints s' = Some route
                 \<and> target_checkpoints_index s' = Some (i, j)
                 \<and> pgmap s' = Some m
                 \<and> graph_lanes (map_road_network m) (route ! i) (route ! (i + 1))
                      = Inr (ref_1 # rest_1)
                 \<and> graph_lanes (map_road_network m) (route ! j) (route ! (j + 1))
                      = Inr (ref_2 # rest_2)
                 \<and> current_ref_lanes s' = Some (ref_1 # rest_1)
                 \<and> lm = (real (length (ref_1 # rest_1)) / 2 - 0.5) * map_lane_width m
                 \<and> cp1 = lane_position ref_1 (lane_length ref_1) lm
                 \<and> cp2 = lane_position ref_2 (lane_length ref_2) lm
                 \<and> curve_info cfg s' ref_1 = Inr (bendradius1, dir1, angle1)
                 \<and> curve_info cfg s' ref_2 = Inr (bendradius2, dir2, angle2)
                 \<and> get_info_for_checkpoint cfg projection s' 0 (ref_1 # rest_1) v
                      = Inr (take 5 (get_navi_info s'), h1, cp1)
                 \<and> get_info_for_checkpoint cfg projection s' 1 (ref_2 # rest_2) v
                      = Inr (drop 5 (get_navi_info s'), h2, cp2)
                 \<and> get_navi_info s' =
                     [clip ((fst (projection (clamped_dir_vec cp1 (veh_position v)))
                               / NAVI_POINT_DIST + 1) / 2) 0 1,
                      clip ((snd (projection (clamped_dir_vec cp1 (veh_position v)))
                               / NAVI_POINT_DIST + 1) / 2) 0 1,
                      clip bendradius1 0 1,
                      clip ((dir1 + 1) / 2) 0 1,
                      clip ((rad2deg angle1 / curve_angle_max cfg + 1) / 2) 0 1,
                      clip ((fst (projection (clamped_dir_vec cp2 (veh_position v)))
                               / NAVI_POINT_DIST + 1) / 2) 0 1,
                      clip ((snd (projection (clamped_dir_vec cp2 (veh_position v)))
                               / NAVI_POINT_DIST + 1) / 2) 0 1,
                      clip bendradius2 0 1,
                      clip ((dir2 + 1) / 2) 0 1,
                      clip ((rad2deg angle2 / curve_angle_max cfg + 1) / 2) 0 1]))"
proof (intro conjI allI impI)
  show "get_navi_info (init_module show) = replicate 10 0"
    by (simp add: get_navi_info_def init_module_def navigation_info_dim_def)
next
  fix a b s' assume "set_route s a b = Inr s'"
  from set_route_Inr[OF this] have "navi_info s' = map (\<lambda>_. 0) (navi_info s)" by auto
  then show "get_navi_info s' = replicate 10 0"
    using assms by (simp add: get_navi_info_def map_replicate_const navigation_info_dim_def)
next
  fix li long b s' assume "update_target_checkpoints s li long = Inr (b, s')"
  then show "get_navi_info s' = get_navi_info s"
    by (simp add: get_navi_info_def update_target_checkpoints_navi)
next
  fix cfg projection v r s' v'
  assume ok: "update_navigation_localization cfg projection s v = Inr (r, s', v')"
  from update_navigation_localization_Inr[OF ok]
  obtain lane lane_index b s1 route i j m lanes_1 lanes_2 info_1 h1 cp1 info_2 h2 cp2 where
    f: "localize s v = Inr (lane, lane_index, v')"
       "update_target_checkpoints s lane_index
              (fst (local_coordinates lane (veh_position v))) = Inr (b, s1)"
       "checkpoints s1 = Some route" "target_checkpoints_index s1 = Some (i, j)"
       "pgmap s1 = Some m"
       "graph_lanes (map_road_network m) (route ! i) (route ! (i + 1)) = Inr lanes_1"
       "graph_lanes (map_road_network m) (route ! j) (route ! (j + 1)) = Inr lanes_2"
       "get_info_for_checkpoint cfg projection s' 0 lanes_1 v = Inr (info_1, h1, cp1)"
       "get_info_for_checkpoint cfg projection s' 1 lanes_2 v = Inr (info_2, h2, cp2)"
       "navi_info s' = info_1 @ info_2"
       "checkpoints s' = Some route" "target_checkpoints_index s' = Some (i, j)"
       "pgmap s' = Some m" "current_ref_lanes s' = Some lanes_1"
    by blast
  from get_info_for_checkpoint_Inr[OF f(8)]
  obtain ref_1 rest_1 lm1 curve1 where
    a1: "lanes_1 = ref_1 # rest_1" "later_middle s' = Inr lm1"
        "cp1 = lane_position ref_1 (lane_length ref_1) lm1"
        "curve_info cfg s' ref_1 = Inr curve1"
        "info_1 = checkpoint_scalars cfg (projection (clamped_dir_vec cp1 (veh_position v))) curve1"
    by blast
  from get_info_for_checkpoint_Inr[OF f(9)]
  obtain ref_2 rest_2 lm2 curve2 where
    a2: "lanes_2 = ref_2 # rest_2" "later_middle s' = Inr lm2"
        "cp2 = lane_position ref_2 (lane_length ref_2) lm2"
        "curve_info cfg s' ref_2 = Inr curve2"
        "info_2 = checkpoint_scalars cfg (projection (clamped_dir_vec cp2 (veh_position v))) curve2"
    by blast
  define lm where "lm = (real (length (ref_1 # rest_1)) / 2 - 0.5) * map_lane_width m"
  have lms: "lm1 = lm" "lm2 = lm"
    using later_middle_eq[OF f(14) f(13)] a1(1,2) a2(2) unfolding lm_def by simp_all
  obtain b1 d1 g1 where c1: "curve1 = (b1, d1, g1)" by (cases curve1)
  obtain b2 d2 g2 where c2: "curve2 = (b2, d2, g2)" by (cases curve2)
  have l5: "length info_1 = 5" unfolding a1(5) by (rule checkpoint_scalars_length)
  have n: "get_navi_info s' = info_1 @ info_2" by (simp add: get_navi_info_def f(10))
  show "length (get_navi_info s') = 10"
    unfolding n a1(5) a2(5) by (simp add: checkpoint_scalars_length)
  show "\<forall>x\<in>set (get_navi_info s'). 0 \<le> x \<and> x \<le> 1"
    unfolding n a1(5) a2(5) by (auto dest: checkpoint_scalars_unit)
  have t5: "take 5 (get_navi_info s') = info_1" "drop 5 (get_navi_info s') = info_2"
    using l5 n by simp_all
  have e: "get_navi_info s' =
                     [clip ((fst (projection (clamped_dir_vec cp1 (veh_position v)))
                               / NAVI_POINT_DIST + 1) / 2) 0 1,
                      clip ((snd (projection (clamped_dir_vec cp1 (veh_position v)))
                               / NAVI_POINT_DIST + 1) / 2) 0 1,
                      clip b1 0 1,
                      clip ((d1 + 1) / 2) 0 1,
                      clip ((rad2deg g1 / curve_angle_max cfg + 1) / 2) 0 1,
                      clip ((fst (projection (clamped_dir_vec cp2 (veh_position v)))
                               / NAVI_POINT_DIST + 1) / 2) 0 1,
                      clip ((snd (projection (clamped_dir_vec cp2 (veh_position v)))
                               / NAVI_POINT_DIST + 1) / 2) 0 1,
                      clip b2 0 1,
                      clip ((d2 + 1) / 2) 0 1,
                      clip ((rad2deg g2 / curve_angle_max cfg + 1) / 2) 0 1]"
    unfolding n a1(5) a2(5) c1 c2
    by (simp add: checkpoint_scalars_def split: prod.splits)
  have P: "localize s v = Inr (lane, lane_index, v')
                 \<and> update_target_checkpoints s lane_index
                      (fst (local_coordinates lane (veh_position v))) = Inr (b, s1)
                 \<and> checkpoints s1 = Some route
                 \<and> target_checkpoints_index s1 = Some (i, j)
                 \<and> pgmap s1 = Some m
                 \<and> checkpoints s' = Some route
                 \<and> target_checkpoints_index s' = Some (i, j)
                 \<and> pgmap s' = Some m
                 \<and> graph_lanes (map_road_network m) (route ! i) (route ! (i + 1))
                      = Inr (ref_1 # rest_1)
                 \<and> graph_lanes (map_road_network m) (route ! j) (route ! (j + 1))
                      = Inr (ref_2 # rest_2)
                 \<and> current_ref_lanes s' = Some (ref_1 # rest_1)
                 \<and> lm = (real (length (ref_1 # rest_1)) / 2 - 0.5) * map_lane_width m
                 \<and> cp1 = lane_position ref_1 (lane_length ref_1) lm
                 \<and> cp2 = lane_position ref_2 (lane_length ref_2) lm
                 \<and> curve_info cfg s' ref_1 = Inr (b1, d1, g1)
                 \<and> curve_info cfg s' ref_2 = Inr (b2, d2, g2)
                 \<and> get_info_for_checkpoint cfg projection s' 0 (ref_1 # rest_1) v
                      = Inr (take 5 (get_navi_info s'), h1, cp1)
                 \<and> get_info_for_checkpoint cfg projection s' 1 (ref_2 # rest_2) v
                      = Inr (drop 5 (get_navi_info s'), h2, cp2)"
    using f(1,2,3,4,5,11,12,13) f(6)[unfolded a1(1)] f(7)[unfolded a2(1)] f(14)[unfolded a1(1)]
      lm_def a1(3)[unfolded lms] a2(3)[unfolded lms] a1(4)[unfolded c1] a2(4)[unfolded c2]
      f(8)[unfolded a1(1)] f(9)[unfolded a2(1)] t5
    by simp
  show "\<exists>lane lane_index b s1 route i j m ref_1 rest_1 ref_2 rest_2 lm cp1 cp2 h1 h2
                    bendradius1 dir1 angle1 bendradius2 dir2 angle2.
                   localize s v = Inr (lane, lane_index, v')
                 \<and> update_target_checkpoints s lane_index
                      (fst (local_coordinates lane (veh_position v))) = Inr (b, s1)
                 \<and> checkpoints s1 = Some route
                 \<and> target_checkpoints_index s1 = Some (i, j)
                 \<and> pgmap s1 = Some m
                 \<and> checkpoints s' = Some route
                 \<and> target_checkpoints_index s' = Some (i, j)
                 \<and> pgmap s' = Some m
                 \<and> graph_lanes (map_road_network m) (route ! i) (route ! (i + 1))
                      = Inr (ref_1 # rest_1)
                 \<and> graph_lanes (map_road_network m) (route ! j) (route ! (j + 1))
                      = Inr (ref_2 # rest_2)
                 \<and> current_ref_lanes s' = Some (ref_1 # rest_1)
                 \<and> lm = (real (length (ref_1 # rest_1)) / 2 - 0.5) * map_lane_width m
                 \<and> cp1 = lane_position ref_1 (lane_length ref_1) lm
                 \<and> cp2 = lane_position ref_2 (lane_length ref_2) lm
                 \<and> curve_info cfg s' ref_1 = Inr (bendradius1, dir1, angle1)
                 \<and> curve_info cfg s' ref_2 = Inr (bendradius2, dir2, angle2)
                 \<and> get_info_for_checkpoint cfg projection s' 0 (ref_1 # rest_1) v
                      = Inr (take 5 (get_navi_info s'), h1, cp1)
                 \<and> get_info_for_checkpoint cfg projection s' 1 (ref_2 # rest_2) v
                      = Inr (drop 5 (get_navi_info s'), h2, cp2)
                 \<and> get_navi_info s' =
                     [clip ((fst (projection (clamped_dir_vec cp1 (veh_position v)))
                               / NAVI_POINT_DIST + 1) / 2) 0 1,
                      clip ((snd (projection (clamped_dir_vec cp1 (veh_position v)))
                               / NAVI_POINT_DIST + 1) / 2) 0 1,
                      clip bendradius1 0 1,
                      clip ((dir1 + 1) / 2) 0 1,
                      clip ((rad2deg angle1 / curve_angle_max cfg + 1) / 2) 0 1,
                      clip ((fst (projection (clamped_dir_vec cp2 (veh_position v)))
                               / NAVI_POINT_DIST + 1) / 2) 0 1,
                      clip ((snd (projection (clamped_dir_vec cp2 (veh_position v)))
                               / NAVI_POINT_DIST + 1) / 2) 0 1,
                      clip bendradius2 0 1,
                      clip ((dir2 + 1) / 2) 0 1,
                      clip ((rad2deg angle2 / curve_angle_max cfg + 1) / 2) 0 1]"
    apply (rule exI[of _ lane], rule exI[of _ lane_index], rule exI[of _ b], rule exI[of _ s1])
    apply (rule exI[of _ route], rule exI[of _ i], rule exI[of _ j], rule exI[of _ m])
    apply (rule exI[of _ ref_1], rule exI[of _ rest_1], rule exI[of _ ref_2], rule exI[of _ rest_2])
    apply (rule exI[of _ lm], rule exI[of _ cp1], rule exI[of _ cp2], rule exI[of _ h1], rule exI[of _ h2])
    apply (rule exI[of _ b1], rule exI[of _ d1], rule exI[of _ g1])
    apply (rule exI[of _ b2], rule exI[of _ d2], rule exI[of _ g2])
    using P e apply blast
    done
qed

theorem navi_info_in_unit_interval_witness:
  "length (navi_info demo_routed) = navigation_info_dim
   \<and> \<not> isl demo_tick
   \<and> length (get_navi_info (fst (snd (projr demo_tick)))) = 10
   \<and> 0 \<le> get_navi_info (fst (snd (projr demo_tick))) ! 0
   \<and> get_navi_info (fst (snd (projr demo_tick))) ! 0 \<le> 1
   \<and> 0 \<le> get_navi_info (fst (snd (projr demo_tick))) ! 9
   \<and> get_navi_info (fst (snd (projr demo_tick))) ! 9 \<le> 1
   \<and> target_checkpoints_index (fst (snd (projr demo_tick))) = Some (0, 1)
   \<and> get_navi_info (fst (snd (projr demo_tick))) ! 2 = 0
   \<and> get_navi_info (fst (snd (projr demo_tick))) ! 3 = 1 / 2
   \<and> get_navi_info (init_module False) = replicate 10 0"
proof -
  have len: "length (navi_info demo_routed) = navigation_info_dim"
    by (simp add: demo_routed_def navigation_info_dim_def)
  note T = navi_info_in_unit_interval[OF len]
  from demo_tick_succeeds obtain r s' v' where ok: "demo_tick = Inr (r, s', v')" by blast
  then have ok': "update_navigation_localization demo_space demo_projection demo_routed
       (demo_vehicle demo_hits) = Inr (r, s', v')" by (simp add: demo_tick_def)
  have s': "fst (snd (projr demo_tick)) = s'" unfolding ok by simp
  note U = T[of False, THEN conjunct2, THEN conjunct2, THEN conjunct2, rule_format, OF ok']
  have l: "length (get_navi_info s') = 10" by (rule U[THEN conjunct1])
  have b: "0 \<le> x \<and> x \<le> 1" if "x \<in> set (get_navi_info s')" for x
    using U[THEN conjunct2, THEN conjunct1] that by blast
  have m0: "get_navi_info s' ! 0 \<in> set (get_navi_info s')" using l by simp
  have m9: "get_navi_info s' ! 9 \<in> set (get_navi_info s')" using l by simp
  have i: "get_navi_info (init_module False) = replicate 10 0" by (rule T[THEN conjunct1])
  have n: "\<not> isl demo_tick" unfolding ok by simp
  from U[THEN conjunct2, THEN conjunct2]
  obtain lane lane_index b0 s1 route i j m ref_1 rest_1 ref_2 rest_2 lm cp1 cp2 h1 h2
    bendradius1 dir1 angle1 bendradius2 dir2 angle2
    where
      E: "localize demo_routed (demo_vehicle demo_hits) = Inr (lane, lane_index, v')
         \<and> update_target_checkpoints demo_routed lane_index
              (fst (local_coordinates lane (veh_position (demo_vehicle demo_hits)))) = Inr (b0, s1)
         \<and> checkpoints s1 = Some route
         \<and> target_checkpoints_index s1 = Some (i, j)
         \<and> pgmap s1 = Some m
         \<and> checkpoints s' = Some route
         \<and> target_checkpoints_index s' = Some (i, j)
         \<and> pgmap s' = Some m
         \<and> graph_lanes (map_road_network m) (route ! i) (route ! (i + 1))
              = Inr (ref_1 # rest_1)
         \<and> graph_lanes (map_road_network m) (route ! j) (route ! (j + 1))
              = Inr (ref_2 # rest_2)
         \<and> current_ref_lanes s' = Some (ref_1 # rest_1)
         \<and> lm = (real (length (ref_1 # rest_1)) / 2 - 0.5) * map_lane_width m
         \<and> cp1 = lane_position ref_1 (lane_length ref_1) lm
         \<and> cp2 = lane_position ref_2 (lane_length ref_2) lm
         \<and> curve_info demo_space s' ref_1 = Inr (bendradius1, dir1, angle1)
         \<and> curve_info demo_space s' ref_2 = Inr (bendradius2, dir2, angle2)
         \<and> get_info_for_checkpoint demo_space demo_projection s' 0 (ref_1 # rest_1)
              (demo_vehicle demo_hits) = Inr (take 5 (get_navi_info s'), h1, cp1)
         \<and> get_info_for_checkpoint demo_space demo_projection s' 1 (ref_2 # rest_2)
              (demo_vehicle demo_hits) = Inr (drop 5 (get_navi_info s'), h2, cp2)
         \<and> get_navi_info s' =
             [clip ((fst (demo_projection (clamped_dir_vec cp1 (veh_position (demo_vehicle demo_hits))))
                       / NAVI_POINT_DIST + 1) / 2) 0 1,
              clip ((snd (demo_projection (clamped_dir_vec cp1 (veh_position (demo_vehicle demo_hits))))
                       / NAVI_POINT_DIST + 1) / 2) 0 1,
              clip bendradius1 0 1,
              clip ((dir1 + 1) / 2) 0 1,
              clip ((rad2deg angle1 / curve_angle_max demo_space + 1) / 2) 0 1,
              clip ((fst (demo_projection (clamped_dir_vec cp2 (veh_position (demo_vehicle demo_hits))))
                       / NAVI_POINT_DIST + 1) / 2) 0 1,
              clip ((snd (demo_projection (clamped_dir_vec cp2 (veh_position (demo_vehicle demo_hits))))
                       / NAVI_POINT_DIST + 1) / 2) 0 1,
              clip bendradius2 0 1,
              clip ((dir2 + 1) / 2) 0 1,
              clip ((rad2deg angle2 / curve_angle_max demo_space + 1) / 2) 0 1]"
    by (elim exE) (rule that)
  from E have
      e: "localize demo_routed (demo_vehicle demo_hits) = Inr (lane, lane_index, v')"
         "update_target_checkpoints demo_routed lane_index
            (fst (local_coordinates lane (veh_position (demo_vehicle demo_hits)))) = Inr (b0, s1)"
         "checkpoints s1 = Some route" "target_checkpoints_index s1 = Some (i, j)"
         "pgmap s1 = Some m"
         "target_checkpoints_index s' = Some (i, j)"
         "graph_lanes (map_road_network m) (route ! i) (route ! (i + 1)) = Inr (ref_1 # rest_1)"
         "curve_info demo_space s' ref_1 = Inr (bendradius1, dir1, angle1)"
    by blast+
  from E have e9: "get_navi_info s' ! 2 = clip bendradius1 0 1"
     "get_navi_info s' ! 3 = clip ((dir1 + 1) / 2) 0 1"
    by simp_all
  from e(1) have li: "lane_index = (''A'', ''B'', 1)" by (simp add: demo_localize)
  from e(2) have s1: "s1 = demo_routed" unfolding li by (simp add: demo_update_stays)
  from e(3) have route: "route = [''A'', ''B'', ''C'']" unfolding s1 by (simp add: demo_routed_def)
  from e(4) have ij: "i = 0" "j = 1" unfolding s1 by (simp_all add: demo_routed_def)
  from e(5) have m: "m = demo_map" unfolding s1 by (simp add: demo_routed_def demo_module_def)
  from e(7) have ref: "ref_1 = straight_lane 0 0 0"
    unfolding route ij m by (simp add: demo_graph_AB)
  have "curve_info demo_space s' ref_1 = Inr (0, 0, 0)"
    unfolding ref by (rule curve_info_straight) (simp add: straight_lane_def)
  with e(8) have z: "bendradius1 = 0" "dir1 = 0" by simp_all
  have w: "target_checkpoints_index s' = Some (0, 1)" using e(6) ij by simp
  have v2: "get_navi_info s' ! 2 = 0" using e9(1) z by (simp add: clip_def)
  have v3: "get_navi_info s' ! 3 = 1 / 2" using e9(2) z by (simp add: clip_def)
  from len n l b[OF m0] b[OF m9] w v2 v3 i show ?thesis unfolding s' by (intro conjI) simp_all
qed

text \<open>C8: with \<open>refs\<close> the current reference lanes, \<open>m\<close> the map and \<open>denominator\<close>
  the sum of the largest curve radius and the number of reference lanes times the lane
  width: for a circular reference lane and a denominator that is not zero,
  \<^verbatim>\<open>_get_info_for_checkpoint\<close> computes the bend radius as the radius over the
  denominator, the direction as the direction of the lane, and the angle as the end
  phase minus the start phase for direction 1 and the start phase minus the end phase
  for direction -1, and emits their clamped scalars; for direction 1 the fifth scalar
  is the clamped \<open>(rad2deg (end_phase - start_phase) / curve_angle_max + 1) / 2\<close>; for a
  straight reference lane the three are zero.\<close>

theorem curve_scalars_of_reference_lane:
  assumes "current_ref_lanes s = Some refs" and "pgmap s = Some m"
    and "denominator = curve_radius_max cfg + real (length refs) * map_lane_width m"
  shows "(\<forall>r d sp ep. shape ref_lane = CircularLane r d sp ep \<and> denominator \<noteq> 0 \<longrightarrow>
            curve_info cfg s ref_lane =
              Inr (r / denominator, real_of_int d,
                   if d = 1 then ep - sp else if d = - 1 then sp - ep else 0)
          \<and> (\<exists>proj_heading proj_side lanes_heading check_point.
                get_info_for_checkpoint cfg projection s lanes_id (ref_lane # rest) ego_vehicle =
                  Inr ([clip ((proj_heading / NAVI_POINT_DIST + 1) / 2) 0 1,
                        clip ((proj_side / NAVI_POINT_DIST + 1) / 2) 0 1,
                        clip (r / denominator) 0 1,
                        clip ((real_of_int d + 1) / 2) 0 1,
                        clip ((rad2deg (if d = 1 then ep - sp
                                        else if d = - 1 then sp - ep else 0)
                                 / curve_angle_max cfg + 1) / 2) 0 1],
                       lanes_heading, check_point)))
       \<and> (\<forall>r sp ep. shape ref_lane = CircularLane r 1 sp ep \<and> denominator \<noteq> 0 \<longrightarrow>
            (\<exists>x0 x1 x2 x3 lanes_heading check_point.
                get_info_for_checkpoint cfg projection s lanes_id (ref_lane # rest) ego_vehicle =
                  Inr ([x0, x1, x2, x3,
                        clip ((rad2deg (ep - sp) / curve_angle_max cfg + 1) / 2) 0 1],
                       lanes_heading, check_point)))
       \<and> (shape ref_lane = StraightLane \<longrightarrow>
            curve_info cfg s ref_lane = Inr (0, 0, 0)
          \<and> (\<exists>proj_heading proj_side lanes_heading check_point.
                get_info_for_checkpoint cfg projection s lanes_id (ref_lane # rest) ego_vehicle =
                  Inr ([clip ((proj_heading / NAVI_POINT_DIST + 1) / 2) 0 1,
                        clip ((proj_side / NAVI_POINT_DIST + 1) / 2) 0 1,
                        clip 0 0 1,
                        clip ((0 + 1) / 2) 0 1,
                        clip ((rad2deg 0 / curve_angle_max cfg + 1) / 2) 0 1],
                       lanes_heading, check_point)))"
proof -
  note lm = later_middle_eq[OF assms(1,2)]
  have G: "\<exists>proj_heading proj_side lanes_heading check_point.
            get_info_for_checkpoint cfg projection s lanes_id (ref_lane # rest) ego_vehicle =
              Inr ([clip ((proj_heading / NAVI_POINT_DIST + 1) / 2) 0 1,
                    clip ((proj_side / NAVI_POINT_DIST + 1) / 2) 0 1,
                    clip bendradius 0 1,
                    clip ((dir + 1) / 2) 0 1,
                    clip ((rad2deg angle / curve_angle_max cfg + 1) / 2) 0 1],
                   lanes_heading, check_point)"
    if "curve_info cfg s ref_lane = Inr (bendradius, dir, angle)" for bendradius dir angle
  proof -
    obtain ph ps where p: "projection (clamped_dir_vec
        (lane_position ref_lane (lane_length ref_lane)
           ((real (length refs) / 2 - 0.5) * map_lane_width m)) (veh_position ego_vehicle))
        = (ph, ps)" by (meson surj_pair)
    have "get_info_for_checkpoint cfg projection s lanes_id (ref_lane # rest) ego_vehicle =
              Inr ([clip ((ph / NAVI_POINT_DIST + 1) / 2) 0 1,
                    clip ((ps / NAVI_POINT_DIST + 1) / 2) 0 1,
                    clip bendradius 0 1,
                    clip ((dir + 1) / 2) 0 1,
                    clip ((rad2deg angle / curve_angle_max cfg + 1) / 2) 0 1],
                   if lanes_id = 0
                   then heading_at ref_lane (fst (local_coordinates ref_lane (veh_position ego_vehicle)))
                   else heading_at ref_lane (min PRE_NOTIFY_DIST (lane_length ref_lane)),
                   lane_position ref_lane (lane_length ref_lane)
                     ((real (length refs) / 2 - 0.5) * map_lane_width m))"
      unfolding get_info_for_checkpoint_eq[OF lm that] p checkpoint_scalars_eq ..
    then show ?thesis by blast
  qed
  have C: "curve_info cfg s ref_lane =
              Inr (r / denominator, real_of_int d,
                   if d = 1 then ep - sp else if d = - 1 then sp - ep else 0)"
    if "shape ref_lane = CircularLane r d sp ep" "denominator \<noteq> 0" for r d sp ep
    using curve_info_circular[OF assms(1,2) that(1)] that(2) assms(3) by simp
  show ?thesis
  proof (intro conjI allI impI)
    fix r d sp ep
    assume a: "shape ref_lane = CircularLane r d sp ep \<and> denominator \<noteq> 0"
    then show "curve_info cfg s ref_lane =
              Inr (r / denominator, real_of_int d,
                   if d = 1 then ep - sp else if d = - 1 then sp - ep else 0)"
      using C by blast
    then show "\<exists>proj_heading proj_side lanes_heading check_point.
                get_info_for_checkpoint cfg projection s lanes_id (ref_lane # rest) ego_vehicle =
                  Inr ([clip ((proj_heading / NAVI_POINT_DIST + 1) / 2) 0 1,
                        clip ((proj_side / NAVI_POINT_DIST + 1) / 2) 0 1,
                        clip (r / denominator) 0 1,
                        clip ((real_of_int d + 1) / 2) 0 1,
                        clip ((rad2deg (if d = 1 then ep - sp
                                        else if d = - 1 then sp - ep else 0)
                                 / curve_angle_max cfg + 1) / 2) 0 1],
                       lanes_heading, check_point)"
      by (rule G)
  next
    fix r sp ep
    assume a: "shape ref_lane = CircularLane r 1 sp ep \<and> denominator \<noteq> 0"
    then have "curve_info cfg s ref_lane = Inr (r / denominator, 1, ep - sp)"
      using C[of r 1 sp ep] by simp
    from G[OF this]
    show "\<exists>x0 x1 x2 x3 lanes_heading check_point.
                get_info_for_checkpoint cfg projection s lanes_id (ref_lane # rest) ego_vehicle =
                  Inr ([x0, x1, x2, x3,
                        clip ((rad2deg (ep - sp) / curve_angle_max cfg + 1) / 2) 0 1],
                       lanes_heading, check_point)"
      by blast
  next
    assume st: "shape ref_lane = StraightLane"
    then show c0: "curve_info cfg s ref_lane = Inr (0, 0, 0)" by (rule curve_info_straight)
    from G[OF c0]
    show "\<exists>proj_heading proj_side lanes_heading check_point.
                get_info_for_checkpoint cfg projection s lanes_id (ref_lane # rest) ego_vehicle =
                  Inr ([clip ((proj_heading / NAVI_POINT_DIST + 1) / 2) 0 1,
                        clip ((proj_side / NAVI_POINT_DIST + 1) / 2) 0 1,
                        clip 0 0 1,
                        clip ((0 + 1) / 2) 0 1,
                        clip ((rad2deg 0 / curve_angle_max cfg + 1) / 2) 0 1],
                       lanes_heading, check_point)"
      by simp
  qed
qed

theorem curve_scalars_of_reference_lane_witness:
  "current_ref_lanes demo_routed = Some [straight_lane 0 0 0, straight_lane 1 0 3]
   \<and> pgmap demo_routed = Some demo_map
   \<and> (66 :: real) = curve_radius_max demo_space
        + real (length [straight_lane 0 0 0, straight_lane 1 0 3]) * map_lane_width demo_map
   \<and> shape (circular_lane 5) = CircularLane 30 1 0 (pi / 2)
   \<and> curve_info demo_space demo_routed (circular_lane 5) = Inr (30 / 66, 1, pi / 2)
   \<and> (\<exists>x0 x1 x2 x3 lanes_heading check_point.
         get_info_for_checkpoint demo_space demo_projection demo_routed 0 [circular_lane 5]
           (demo_vehicle []) =
         Inr ([x0, x1, x2, x3, clip ((rad2deg (pi / 2 - 0) / curve_angle_max demo_space + 1) / 2) 0 1],
              lanes_heading, check_point))
   \<and> clip ((rad2deg (pi / 2 - 0) / curve_angle_max demo_space + 1) / 2) 0 1 = 5 / 6
   \<and> shape (straight_lane 0 0 0) = StraightLane
   \<and> curve_info demo_space demo_routed (straight_lane 0 0 0) = Inr (0, 0, 0)"
proof -
  have r: "current_ref_lanes demo_routed = Some [straight_lane 0 0 0, straight_lane 1 0 3]"
    by (simp add: demo_routed_def)
  have m: "pgmap demo_routed = Some demo_map" by (simp add: demo_routed_def demo_module_def)
  have d: "(66 :: real) = curve_radius_max demo_space
        + real (length [straight_lane 0 0 0, straight_lane 1 0 3]) * map_lane_width demo_map"
    by (simp add: demo_space_def demo_map_def)
  have c: "shape (circular_lane 5) = CircularLane 30 1 0 (pi / 2)"
    by (simp add: circular_lane_def)
  have st: "shape (straight_lane 0 0 0) = StraightLane" by (simp add: straight_lane_def)
  have nz: "(66 :: real) \<noteq> 0" by simp
  note T = curve_scalars_of_reference_lane[OF r m d]
  from T[of "circular_lane 5", THEN conjunct1, rule_format, OF conjI[OF c nz], THEN conjunct1]
  have 1: "curve_info demo_space demo_routed (circular_lane 5) = Inr (30 / 66, 1, pi / 2)"
    by simp
  note 2 = T[of "circular_lane 5" demo_projection 0 "[]" "demo_vehicle []",
             THEN conjunct2, THEN conjunct1, rule_format, OF conjI[OF c nz]]
  have 3: "clip ((rad2deg (pi / 2 - 0) / curve_angle_max demo_space + 1) / 2) 0 1 = 5 / 6"
    by (simp add: clip_def rad2deg_def demo_space_def)
  from T[of "straight_lane 0 0 0", THEN conjunct2, THEN conjunct2, rule_format, OF st,
         THEN conjunct1]
  have 4: "curve_info demo_space demo_routed (straight_lane 0 0 0) = Inr (0, 0, 0)" .
  from r m d c 1 2 3 st 4 show ?thesis by (intro conjI)
qed

end
